theory Spec2Isabelle
  imports Complex_Main "HOL-Library.Sublist"
begin

section \<open>Conventions of the embedding\<close>

text \<open>
  The patent relevance pipeline is written in Python. Its functions are embedded as HOL
  functions over the following data:
  \<^item> a Python \<open>float\<close> is a \<open>real\<close>: arithmetic is exact, the values \<open>nan\<close> and \<open>inf\<close>
    do not exist, and every \<open>int\<close> converts to a \<open>float\<close>;
  \<^item> a Python \<open>str\<close> is a \<open>string\<close>, one \<open>char\<close> per code point;
  \<^item> a \<open>dict\<close> is an association list in insertion order, read with \<open>map_of\<close>;
  \<^item> a value parsed from JSON is a \<open>json\<close>;
  \<^item> an exception is a value \<open>Inl e\<close> of the result type \<open>error + 'a\<close>.
  Functions of the Python standard library whose text is not part of the repository
  (\<open>json.loads\<close>, \<open>float\<close> applied to a string, the \<open>:.nf\<close> float format, \<open>round\<close>,
  \<open>str\<close>) are the fields of a record \<open>pylib\<close> that the embedded functions take as
  their first argument. Printing is not modelled.
\<close>

datatype error =
    ValidationError    \<comment> \<open>\<open>validation.ValidationError\<close>, the guardrail's own exception\<close>
  | PydanticError      \<comment> \<open>raised by a pydantic model constructor\<close>
  | JSONDecodeError
  | AttributeError
  | ValueError
  | TypeError
  | KeyError
  | IndexError
  | ServiceError       \<comment> \<open>raised by the text-generation client\<close>

datatype json =
    JNull
  | JBool bool
  | JNum real
  | JStr string
  | JArr "json list"
  | JObj "(string \<times> json) list"

record pylib =
  json_loads :: "string \<Rightarrow> json option"     \<comment> \<open>\<open>None\<close>: \<open>json.JSONDecodeError\<close>\<close>
  float_of_str :: "string \<Rightarrow> real option"   \<comment> \<open>\<open>None\<close>: \<open>ValueError\<close>\<close>
  format_f :: "nat \<Rightarrow> real \<Rightarrow> string"       \<comment> \<open>\<open>format_f n x\<close> is \<open>f"{x:.nf}"\<close>\<close>
  round_nd :: "real \<Rightarrow> nat \<Rightarrow> real"         \<comment> \<open>\<open>round(x, n)\<close>\<close>
  py_str :: "json \<Rightarrow> string"                \<comment> \<open>\<open>str(x)\<close> of a parsed value that is not a \<open>str\<close>\<close>

definition bind_res :: "error + 'a \<Rightarrow> ('a \<Rightarrow> error + 'b) \<Rightarrow> error + 'b" where
  "bind_res r f = (case r of Inl e \<Rightarrow> Inl e | Inr x \<Rightarrow> f x)"

definition getitem :: "(string \<times> 'a) list \<Rightarrow> string \<Rightarrow> error + 'a" where
  \<comment> \<open>\<open>d[k]\<close>\<close>
  "getitem d k = (case map_of d k of None \<Rightarrow> Inl KeyError | Some v \<Rightarrow> Inr v)"

definition get_default :: "(string \<times> 'a) list \<Rightarrow> string \<Rightarrow> 'a \<Rightarrow> 'a" where
  \<comment> \<open>\<open>d.get(k, default)\<close>\<close>
  "get_default d k dflt = (case map_of d k of None \<Rightarrow> dflt | Some v \<Rightarrow> v)"

section \<open>Strings\<close>

definition isspace :: "char \<Rightarrow> bool" where
  \<comment> \<open>\<open>str.isspace\<close> on the code points below 256\<close>
  "isspace c = (of_char c \<in> {9, 10, 11, 12, 13, 28, 29, 30, 31, 32, 133, 160 :: nat})"

definition lstrip :: "string \<Rightarrow> string" where
  "lstrip s = dropWhile isspace s"

definition rstrip :: "string \<Rightarrow> string" where
  "rstrip s = rev (dropWhile isspace (rev s))"

definition strip :: "string \<Rightarrow> string" where
  "strip s = rstrip (lstrip s)"

definition lstrip_chars :: "string \<Rightarrow> string \<Rightarrow> string" where
  \<comment> \<open>\<open>s.lstrip(chars)\<close>: drops the leading characters that occur in \<open>chars\<close>\<close>
  "lstrip_chars chars s = dropWhile (\<lambda>c. c \<in> set chars) s"

section \<open>models.py\<close>

record DimensionScore =
  raw_score :: real
  normalized_score :: real
  sources :: "string list"
  agent :: string
  "notes" :: string
  confidence :: real

fun str_of :: "json \<Rightarrow> string option" where
  "str_of (JStr s) = Some s"
| "str_of _ = None"

fun strs_of :: "json list \<Rightarrow> string list option" where
  "strs_of [] = Some []"
| "strs_of (j # js) =
     (case str_of j of None \<Rightarrow> None
      | Some s \<Rightarrow> (case strs_of js of None \<Rightarrow> None | Some ss \<Rightarrow> Some (s # ss)))"

fun str_list_of :: "json \<Rightarrow> string list option" where
  \<comment> \<open>what pydantic accepts for a field of type \<open>List[str]\<close>\<close>
  "str_list_of (JArr js) = strs_of js"
| "str_list_of _ = None"

definition new_DimensionScore ::
  "real \<Rightarrow> real \<Rightarrow> json \<Rightarrow> string \<Rightarrow> json \<Rightarrow> real \<Rightarrow> error + DimensionScore" where
  \<comment> \<open>the constructor \<open>DimensionScore(...)\<close> with the field constraints and the two
      field validators; \<open>sources\<close> and \<open>notes\<close> arrive as the caller passes them\<close>
  "new_DimensionScore raw nrm srcs ag nts conf =
     (if \<not> (0 \<le> raw \<and> raw \<le> 5) then Inl PydanticError
      else if \<not> (0 \<le> nrm \<and> nrm \<le> 100) then Inl PydanticError
      else case str_list_of srcs of None \<Rightarrow> Inl PydanticError
      | Some ss \<Rightarrow>
          if length ss < 1 then Inl PydanticError
          else if list_ex (\<lambda>s. strip s = []) ss then Inl PydanticError
          else case str_of nts of None \<Rightarrow> Inl PydanticError
          | Some n \<Rightarrow>
              if length n < 5 then Inl PydanticError
              else if length (strip n) < 5 then Inl PydanticError
              else if \<not> (0 \<le> conf \<and> conf \<le> 1) then Inl PydanticError
              else Inr \<lparr>raw_score = raw, normalized_score = nrm, sources = ss,
                        agent = ag, notes = n, confidence = conf\<rparr>)"

definition SCORING_WEIGHTS :: "(string \<times> real) list" where
  "SCORING_WEIGHTS =
     [(''tech_momentum'', 0.20),
      (''market_gravity'', 0.25),
      (''white_space'', 0.20),
      (''strategic_leverage'', 0.15),
      (''timing'', 0.10),
      (''regulatory_alignment'', 0.10)]"

section \<open>scoring\_agent.py\<close>

record evidence =
  ev_sources :: "string list"
  ev_agent :: string
  ev_notes :: string

definition evidence_of :: "DimensionScore \<Rightarrow> evidence" where
  "evidence_of d = \<lparr>ev_sources = sources d, ev_agent = agent d, ev_notes = notes d\<rparr>"

fun weighted_sum :: "(string \<times> real) list \<Rightarrow> real \<Rightarrow> (string \<times> real) list \<Rightarrow> error + real" where
  \<comment> \<open>\<open>sum(normalized_scores[dimension] * weight for dimension, weight in weights.items())\<close>,
      the running total as second argument\<close>
  "weighted_sum ns acc [] = Inr acc"
| "weighted_sum ns acc ((dimension, weight) # ws) =
     (case getitem ns dimension of
        Inl e \<Rightarrow> Inl e
      | Inr v \<Rightarrow> weighted_sum ns (acc + v * weight) ws)"

definition calculate_prs ::
  "DimensionScore \<Rightarrow> DimensionScore \<Rightarrow> DimensionScore \<Rightarrow> DimensionScore \<Rightarrow> DimensionScore
     \<Rightarrow> DimensionScore
     \<Rightarrow> error + (real \<times> (string \<times> real) list \<times> (string \<times> real) list \<times> (string \<times> evidence) list)" where
  "calculate_prs tech_momentum market_gravity white_space strategic_leverage timing
       regulatory_alignment =
     (let raw_scores =
            [(''tech_momentum'', raw_score tech_momentum),
             (''market_gravity'', raw_score market_gravity),
             (''white_space'', raw_score white_space),
             (''strategic_leverage'', raw_score strategic_leverage),
             (''timing'', raw_score timing),
             (''regulatory_alignment'', raw_score regulatory_alignment)];
          normalized_scores = map (\<lambda>(key, value). (key, (value / 5) * 100)) raw_scores
      in bind_res (weighted_sum normalized_scores 0 SCORING_WEIGHTS) (\<lambda>prs.
           let evidence_map =
                 [(''tech_momentum'', evidence_of tech_momentum),
                  (''market_gravity'', evidence_of market_gravity),
                  (''white_space'', evidence_of white_space),
                  (''strategic_leverage'', evidence_of strategic_leverage),
                  (''timing'', evidence_of timing),
                  (''regulatory_alignment'', evidence_of regulatory_alignment)]
           in Inr (prs, raw_scores, normalized_scores, evidence_map)))"

section \<open>validation.py\<close>

definition json_get :: "json \<Rightarrow> string \<Rightarrow> json \<Rightarrow> error + json" where
  \<comment> \<open>\<open>data.get(key, default)\<close> on a parsed value: only a JSON object has \<open>get\<close>\<close>
  "json_get data key dflt =
     (case data of JObj kvs \<Rightarrow> Inr (get_default kvs key dflt) | _ \<Rightarrow> Inl AttributeError)"

fun py_float :: "pylib \<Rightarrow> json \<Rightarrow> error + real" where
  \<comment> \<open>the builtin \<open>float(x)\<close> on a parsed value\<close>
  "py_float L (JNum r) = Inr r"
| "py_float L (JBool b) = Inr (if b then 1 else 0)"
| "py_float L (JStr s) = (case float_of_str L s of None \<Rightarrow> Inl ValueError | Some r \<Rightarrow> Inr r)"
| "py_float L JNull = Inl TypeError"
| "py_float L (JArr xs) = Inl TypeError"
| "py_float L (JObj kvs) = Inl TypeError"

fun nonblank_str :: "json \<Rightarrow> bool" where
  \<comment> \<open>\<open>isinstance(s, str) and s.strip()\<close>\<close>
  "nonblank_str (JStr s) = (strip s \<noteq> [])"
| "nonblank_str _ = False"

fun strip_json :: "json \<Rightarrow> string" where
  \<comment> \<open>\<open>s.strip()\<close>, applied to the items that passed \<open>nonblank_str\<close>\<close>
  "strip_json (JStr s) = strip s"
| "strip_json _ = []"

text \<open>
  \<open>validate_dimension_score\<close> is a sequence of blocks, each of which either raises or
  binds a validated value. Each block is a function of the parsed \<open>data\<close>.
\<close>

definition extract_score :: "pylib \<Rightarrow> json \<Rightarrow> error + real" where
  \<comment> \<open>the block "Extract and validate score": the \<open>try\<close> catches \<open>ValueError\<close> and
      \<open>TypeError\<close> only\<close>
  "extract_score L data =
     (case bind_res (json_get data ''aggregate_score'' (JNum 0)) (py_float L) of
        Inl e \<Rightarrow> if e = ValueError \<or> e = TypeError then Inl ValidationError else Inl e
      | Inr score \<Rightarrow>
          if \<not> (0 \<le> score \<and> score \<le> 5) then Inl ValidationError else Inr score)"

definition extract_sources :: "json \<Rightarrow> error + string list" where
  \<comment> \<open>the block "Extract sources"\<close>
  "extract_sources data =
     bind_res (json_get data ''sources'' (JArr [])) (\<lambda>srcs.
     case srcs of
       JArr items \<Rightarrow>
         if length items = 0 then Inl ValidationError
         else
           let sources' = map strip_json (filter nonblank_str items) in
           if sources' = [] then Inl ValidationError else Inr sources'
     | _ \<Rightarrow> Inl ValidationError)"

definition extract_notes :: "json \<Rightarrow> error + string" where
  \<comment> \<open>the block "Extract notes"\<close>
  "extract_notes data =
     bind_res (json_get data ''notes'' (JStr [])) (\<lambda>nts.
     case nts of
       JStr notes' \<Rightarrow> if length (strip notes') < 5 then Inl ValidationError else Inr notes'
     | _ \<Rightarrow> Inl ValidationError)"

definition extract_confidence :: "pylib \<Rightarrow> json \<Rightarrow> real \<Rightarrow> error + real" where
  \<comment> \<open>the block "Extract confidence if provided": \<open>float\<close> is called outside any \<open>try\<close>\<close>
  "extract_confidence L data min_confidence =
     bind_res (json_get data ''confidence'' (JNum 0.5)) (\<lambda>c.
     bind_res (py_float L c) (\<lambda>confidence'.
     if confidence' < min_confidence then Inl ValidationError else Inr confidence'))"

definition validate_dimension_score ::
  "pylib \<Rightarrow> string \<Rightarrow> string \<Rightarrow> real \<Rightarrow> error + DimensionScore" where
  \<comment> \<open>\<open>raw_json\<close> is a \<open>str\<close>, as annotated and as both callers pass it, so the branch
      \<open>data = raw_json\<close> of the source is not taken\<close>
  "validate_dimension_score L raw_json agent_name min_confidence =
     (case json_loads L raw_json of
        None \<Rightarrow> Inl ValidationError
      | Some data \<Rightarrow>
          bind_res (extract_score L data) (\<lambda>score.
          bind_res (extract_sources data) (\<lambda>sources'.
          bind_res (extract_notes data) (\<lambda>notes'.
          bind_res (extract_confidence L data min_confidence) (\<lambda>confidence'.
          case new_DimensionScore score ((score / 5) * 100) (JArr (map JStr sources'))
                 agent_name (JStr (strip notes')) confidence' of
            Inl e \<Rightarrow> Inl ValidationError
          | Inr dimension_score \<Rightarrow> Inr dimension_score)))))"

fun digits_of_nat :: "nat \<Rightarrow> string" where
  "digits_of_nat n =
     (if n < 10 then [char_of (n + 48)]
      else digits_of_nat (n div 10) @ [char_of (n mod 10 + 48)])"

definition str_of_int :: "int \<Rightarrow> string" where
  \<comment> \<open>how an f-string prints an \<open>int\<close>\<close>
  "str_of_int i = (if i < 0 then CHR ''-'' # digits_of_nat (nat (- i)) else digits_of_nat (nat i))"

definition too_few_issue :: "nat \<Rightarrow> int \<Rightarrow> string" where
  "too_few_issue n required_dimensions =
     ''Only '' @ str_of_int (int n) @ '' dimensions provided, expected ''
       @ str_of_int required_dimensions"

definition avg_confidence_issue :: "pylib \<Rightarrow> real \<Rightarrow> string" where
  "avg_confidence_issue L avg_confidence =
     ''Average confidence '' @ format_f L 2 avg_confidence @ '' is very low (< 0.3)''"

definition high_score_issue :: "pylib \<Rightarrow> DimensionScore \<Rightarrow> string" where
  "high_score_issue L score =
     agent score @ '': High score '' @ format_f L 1 (normalized_score score)
       @ '' with low confidence '' @ format_f L 2 (confidence score)"

fun high_score_loop :: "pylib \<Rightarrow> string list \<Rightarrow> DimensionScore list \<Rightarrow> string list" where
  \<comment> \<open>the loop \<open>for score in scores\<close>, the list \<open>issues\<close> as second argument\<close>
  "high_score_loop L issues [] = issues"
| "high_score_loop L issues (score # scores) =
     (if normalized_score score > 95 \<and> confidence score < 0.6
      then high_score_loop L (issues @ [high_score_issue L score]) scores
      else high_score_loop L issues scores)"

definition validate_multiple_scores ::
  "pylib \<Rightarrow> DimensionScore list \<Rightarrow> int \<Rightarrow> bool \<times> string list" where
  "validate_multiple_scores L scores required_dimensions =
     (let issues = [];
          issues = (if int (length scores) < required_dimensions
                    then issues @ [too_few_issue (length scores) required_dimensions]
                    else issues);
          avg_confidence = (if scores \<noteq> []
                            then foldl (+) 0 (map confidence scores) / real (length scores)
                            else 0);
          issues = (if avg_confidence < 0.3
                    then issues @ [avg_confidence_issue L avg_confidence]
                    else issues);
          issues = high_score_loop L issues scores
      in (length issues = 0, issues))"

definition fence :: string where
  "fence = ''```''"

definition backtick :: char where
  "backtick = CHR 0x60"

definition newline :: char where
  "newline = CHR 0x0A"

function split_acc :: "string \<Rightarrow> string \<Rightarrow> string \<Rightarrow> string list" where
  \<comment> \<open>\<open>s.split(sep)\<close> read from the left, the piece being read as second argument;
      \<open>sep\<close> is not empty at any call\<close>
  "split_acc sep cur [] = [cur]"
| "split_acc sep cur (c # cs) =
     (if sep \<noteq> [] \<and> prefix sep (c # cs)
      then cur # split_acc sep [] (drop (length sep) (c # cs))
      else split_acc sep (cur @ [c]) cs)"
  by pat_completeness auto
termination
  by (relation "measure (\<lambda>(sep, cur, s). length s)") auto

definition split :: "string \<Rightarrow> string \<Rightarrow> string list" where
  "split sep s = split_acc sep [] s"

definition item :: "'a list \<Rightarrow> nat \<Rightarrow> error + 'a" where
  \<comment> \<open>\<open>xs[i]\<close> for \<open>i \<ge> 0\<close>\<close>
  "item xs i = (if i < length xs then Inr (xs ! i) else Inl IndexError)"

definition sanitize_llm_output :: "string \<Rightarrow> error + string" where
  "sanitize_llm_output raw_text =
     (let text = strip raw_text in
      bind_res (if prefix fence text
                then bind_res (item (split fence text) 1) (\<lambda>text.
                       Inr (if prefix ''json'' text then drop 4 text else text))
                else Inr text) (\<lambda>text.
      let text = (if suffix fence text then take (length text - 3) text else text)
      in Inr (strip text)))"

section \<open>swot\_agent.py\<close>

record SWOT =
  strengths :: "string list"
  weaknesses :: "string list"
  opportunities :: "string list"
  threats :: "string list"

definition new_SWOT ::
  "string list \<Rightarrow> string list \<Rightarrow> string list \<Rightarrow> string list \<Rightarrow> error + SWOT" where
  \<comment> \<open>the constructor \<open>SWOT(...)\<close> of models.py with its validator \<open>validate_swot\<close>\<close>
  "new_SWOT ss ws os ts =
     (if \<not> (ss \<noteq> [] \<or> ws \<noteq> [] \<or> os \<noteq> [] \<or> ts \<noteq> []) then Inl PydanticError
      else Inr \<lparr>strengths = ss, weaknesses = ws, opportunities = os, threats = ts\<rparr>)"

definition is_lower :: "char \<Rightarrow> bool" where
  "is_lower c = (97 \<le> (of_char c :: nat) \<and> (of_char c :: nat) \<le> 122)"

definition is_upper :: "char \<Rightarrow> bool" where
  "is_upper c = (65 \<le> (of_char c :: nat) \<and> (of_char c :: nat) \<le> 90)"

definition to_upper :: "char \<Rightarrow> char" where
  "to_upper c = (if is_lower c then char_of ((of_char c :: nat) - 32) else c)"

definition to_lower :: "char \<Rightarrow> char" where
  "to_lower c = (if is_upper c then char_of ((of_char c :: nat) + 32) else c)"

fun title_from :: "bool \<Rightarrow> string \<Rightarrow> string" where
  \<comment> \<open>\<open>str.title\<close>; the flag says whether the previous character was a letter.
      The letters are the ASCII letters.\<close>
  "title_from prev [] = []"
| "title_from prev (c # cs) =
     (if is_lower c \<or> is_upper c
      then (if prev then to_lower c else to_upper c) # title_from True cs
      else c # title_from False cs)"

definition title :: "string \<Rightarrow> string" where
  "title s = title_from False s"

definition format_dimension :: "string \<Rightarrow> string" where
  \<comment> \<open>\<open>_format_dimension\<close>: \<open>dimension.replace("_", " ").title()\<close>\<close>
  "format_dimension dimension =
     title (map (\<lambda>c. if c = CHR ''_'' then CHR '' '' else c) dimension)"

definition score_entry :: "pylib \<Rightarrow> string \<Rightarrow> real \<Rightarrow> string" where
  "score_entry L dimension score =
     format_dimension dimension @ '': '' @ format_f L 1 score @ ''/100''"

fun strengths_loop :: "pylib \<Rightarrow> string list \<Rightarrow> (string \<times> real) list \<Rightarrow> string list" where
  "strengths_loop L acc [] = acc"
| "strengths_loop L acc ((dimension, score) # rest) =
     (if score \<ge> 70 then strengths_loop L (acc @ [score_entry L dimension score]) rest
      else strengths_loop L acc rest)"

fun weaknesses_loop :: "pylib \<Rightarrow> string list \<Rightarrow> (string \<times> real) list \<Rightarrow> string list" where
  "weaknesses_loop L acc [] = acc"
| "weaknesses_loop L acc ((dimension, score) # rest) =
     (if score \<le> 40 then weaknesses_loop L (acc @ [score_entry L dimension score]) rest
      else weaknesses_loop L acc rest)"

definition tagged_entry :: "pylib \<Rightarrow> string \<Rightarrow> real \<Rightarrow> string" where
  "tagged_entry L label score = label @ '' ('' @ format_f L 1 score @ ''/100)''"

definition generate_swot :: "pylib \<Rightarrow> (string \<times> real) list \<Rightarrow> error + SWOT" where
  "generate_swot L normalized_scores =
     (let strengths' = strengths_loop L [] normalized_scores;
          weaknesses' = weaknesses_loop L [] normalized_scores
      in
      bind_res (if get_default normalized_scores ''market_gravity'' 0 \<ge> 65
                then bind_res (getitem normalized_scores ''market_gravity'') (\<lambda>v.
                       Inr ([] @ [tagged_entry L ''Strong market potential'' v]))
                else Inr []) (\<lambda>opportunities'.
      bind_res (if get_default normalized_scores ''timing'' 0 \<ge> 65
                then bind_res (getitem normalized_scores ''timing'') (\<lambda>v.
                       Inr (opportunities' @ [tagged_entry L ''Favorable timing'' v]))
                else Inr opportunities') (\<lambda>opportunities'.
      bind_res (if get_default normalized_scores ''regulatory_alignment'' 100 \<le> 40
                then bind_res (getitem normalized_scores ''regulatory_alignment'') (\<lambda>v.
                       Inr ([] @ [tagged_entry L ''Regulatory friction'' v]))
                else Inr []) (\<lambda>threats'.
      bind_res (if get_default normalized_scores ''white_space'' 100 \<le> 40
                then bind_res (getitem normalized_scores ''white_space'') (\<lambda>v.
                       Inr (threats' @ [tagged_entry L ''Crowded market'' v]))
                else Inr threats') (\<lambda>threats'.
      new_SWOT strengths' weaknesses' opportunities' threats')))))"

section \<open>signal\_agents.py, triage\_agent.py, reviewer\_agent.py\<close>

text \<open>
  Every agent sends one prompt to the text-generation service and reads the completion.
  The prompt is a function of the agent's input, so the service is a record of functions
  from that input to the outcome of the call: the completion text, or the exception that
  the client raised.
\<close>

record InventionInput =
  in_idea_id :: string
  in_title :: string
  in_description :: string
  in_technical_domain :: string
  in_application_domains :: "string list"

record TriagedInvention =
  tr_idea_id :: string
  core_concept :: string
  technical_keywords :: "string list"
  tr_application_domains :: "string list"
  analysis_depth :: string

record service =
  triage_response :: "InventionInput \<Rightarrow> error + string"
  signal_response :: "string \<Rightarrow> TriagedInvention \<Rightarrow> error + string"
  reviewer_response :: "(string \<times> real) list \<Rightarrow> (string \<times> evidence) list \<Rightarrow> error + string"

definition strip_fences :: "string \<Rightarrow> error + string" where
  \<comment> \<open>the four lines that the triage agent, the four unguarded signal agents and the
      reviewer each repeat:
      \<open>if text.startswith("```"): text = text.split("```")[1].lstrip("json\n")\<close>,
      \<open>if text.endswith("```"): text = text[:-3]\<close>\<close>
  "strip_fences text =
     bind_res (if prefix fence text
               then bind_res (item (split fence text) 1) (\<lambda>t.
                      Inr (lstrip_chars ''json\<newline>'' t))
               else Inr text) (\<lambda>text.
     Inr (if suffix fence text then take (length text - 3) text else text))"

definition loads :: "pylib \<Rightarrow> string \<Rightarrow> error + json" where
  \<comment> \<open>\<open>json.loads\<close> where the caller does not catch its exception\<close>
  "loads L text = (case json_loads L text of None \<Rightarrow> Inl JSONDecodeError | Some v \<Rightarrow> Inr v)"

definition fallback_score :: "string \<Rightarrow> error + DimensionScore" where
  "fallback_score name =
     new_DimensionScore 2.5 50.0 (JArr [JStr ''fallback_default'']) name
       (JStr ''Validation error occurred; using default score'') 0.3"

definition guarded_compute_signal ::
  "pylib \<Rightarrow> string \<Rightarrow> error + string \<Rightarrow> error + DimensionScore" where
  \<comment> \<open>the body shared by \<open>TechnologySignalAgent.compute_signal\<close> and
      \<open>MarketSignalAgent.compute_signal\<close>\<close>
  "guarded_compute_signal L name response =
     (case bind_res response (\<lambda>content.
             let raw_text = strip content in
             bind_res (sanitize_llm_output raw_text) (\<lambda>clean_json.
             validate_dimension_score L clean_json name 0.3)) of
        Inl e \<Rightarrow> if e = ValidationError then fallback_score name else Inl e
      | Inr dimension_score \<Rightarrow> Inr dimension_score)"

definition unguarded_compute_signal ::
  "pylib \<Rightarrow> string \<Rightarrow> string \<Rightarrow> error + string \<Rightarrow> error + DimensionScore" where
  \<comment> \<open>the body shared by the other four agents; \<open>default_source\<close> is the one source of
      the default list. The source evaluates \<open>float(result.get("aggregate_score", 2.5))\<close>
      twice, with the same result.\<close>
  "unguarded_compute_signal L name default_source response =
     bind_res response (\<lambda>content.
     bind_res (strip_fences (strip content)) (\<lambda>text.
     bind_res (loads L text) (\<lambda>result.
     bind_res (json_get result ''aggregate_score'' (JNum 2.5)) (\<lambda>a.
     bind_res (py_float L a) (\<lambda>score.
     bind_res (json_get result ''sources'' (JArr [JStr default_source])) (\<lambda>srcs.
     bind_res (json_get result ''notes'' (JStr [])) (\<lambda>nts.
     new_DimensionScore score ((score / 5) * 100) srcs name nts 0.5)))))))"

definition TechnologySignalAgent :: string where
  "TechnologySignalAgent = ''TechnologySignalAgent''"
definition MarketSignalAgent :: string where
  "MarketSignalAgent = ''MarketSignalAgent''"
definition ProductLandscapeAgent :: string where
  "ProductLandscapeAgent = ''ProductLandscapeAgent''"
definition RegulatorySignalAgent :: string where
  "RegulatorySignalAgent = ''RegulatorySignalAgent''"
definition StrategicLeverageAgent :: string where
  "StrategicLeverageAgent = ''StrategicLeverageAgent''"
definition TimingAgent :: string where
  "TimingAgent = ''TimingAgent''"

definition compute_signal ::
  "pylib \<Rightarrow> service \<Rightarrow> string \<Rightarrow> TriagedInvention \<Rightarrow> error + DimensionScore" where
  \<comment> \<open>\<open>compute_signal\<close> of the agent class of the given name, one of the six\<close>
  "compute_signal L S name invention =
     (if name = TechnologySignalAgent \<or> name = MarketSignalAgent
      then guarded_compute_signal L name (signal_response S name invention)
      else if name = StrategicLeverageAgent
      then unguarded_compute_signal L name ''architectural reasoning''
             (signal_response S name invention)
      else unguarded_compute_signal L name ''LLM analysis'' (signal_response S name invention))"

definition new_TriagedInvention ::
  "string \<Rightarrow> json \<Rightarrow> json \<Rightarrow> json \<Rightarrow> json \<Rightarrow> error + TriagedInvention" where
  "new_TriagedInvention iid concept keywords domains depth =
     (case (str_of concept, str_list_of keywords, str_list_of domains, str_of depth) of
        (Some c, Some ks, Some ds, Some d) \<Rightarrow>
          if d = ''triage'' \<or> d = ''full''
          then Inr \<lparr>tr_idea_id = iid, core_concept = c, technical_keywords = ks,
                    tr_application_domains = ds, analysis_depth = d\<rparr>
          else Inl PydanticError
      | _ \<Rightarrow> Inl PydanticError)"

definition triage :: "pylib \<Rightarrow> service \<Rightarrow> InventionInput \<Rightarrow> error + TriagedInvention" where
  "triage L S invention =
     bind_res (triage_response S invention) (\<lambda>content.
     bind_res (strip_fences (strip content)) (\<lambda>response_text.
     bind_res (loads L response_text) (\<lambda>triage_data.
     bind_res (json_get triage_data ''core_concept'' (JStr [])) (\<lambda>c.
     bind_res (json_get triage_data ''technical_keywords'' (JArr [])) (\<lambda>ks.
     bind_res (json_get triage_data ''application_domains'' (JArr [])) (\<lambda>ds.
     bind_res (json_get triage_data ''analysis_depth'' (JStr ''full'')) (\<lambda>d.
     new_TriagedInvention (in_idea_id invention) c ks ds d)))))))"

definition review ::
  "pylib \<Rightarrow> service \<Rightarrow> (string \<times> real) list \<Rightarrow> (string \<times> evidence) list
     \<Rightarrow> error + (json \<times> json)" where
  "review L S raw_scores evidence_map =
     bind_res (reviewer_response S raw_scores evidence_map) (\<lambda>content.
     bind_res (strip_fences (strip content)) (\<lambda>text.
     bind_res (loads L text) (\<lambda>result.
     bind_res (json_get result ''confidence'' (JStr ''medium'')) (\<lambda>c.
     bind_res (json_get result ''flags'' (JArr [])) (\<lambda>f.
     Inr (c, f))))))"

section \<open>hooks.py\<close>

text \<open>
  Of \<open>AgentMetrics\<close> the model keeps the fields that \<open>get_summary\<close> reads. The two
  wall-clock stamps are written by \<open>on_agent_start\<close> and \<open>on_agent_end\<close> only, and the
  pipeline never calls the latter. Printing is not modelled.
\<close>

record AgentMetrics =
  m_agent_name :: string
  m_duration_seconds :: real
  m_tokens_used :: int
  m_input_tokens :: int
  m_output_tokens :: int

record PipelineHooks =
  metrics :: "(string \<times> AgentMetrics) list"
  all_flags :: "string list"
  total_tokens :: int
  total_cost :: real

fun dict_set :: "(string \<times> 'a) list \<Rightarrow> string \<Rightarrow> 'a \<Rightarrow> (string \<times> 'a) list" where
  \<comment> \<open>\<open>d[k] = v\<close>\<close>
  "dict_set [] k v = [(k, v)]"
| "dict_set ((k', v') # d) k v = (if k' = k then (k, v) # d else (k', v') # dict_set d k v)"

definition on_agent_start :: "PipelineHooks \<Rightarrow> string \<Rightarrow> PipelineHooks" where
  "on_agent_start h agent_name =
     h\<lparr>metrics := dict_set (metrics h) agent_name
          \<lparr>m_agent_name = agent_name, m_duration_seconds = 0, m_tokens_used = 0,
           m_input_tokens = 0, m_output_tokens = 0\<rparr>\<rparr>"

definition on_validation_error :: "PipelineHooks \<Rightarrow> string \<Rightarrow> string \<Rightarrow> PipelineHooks" where
  "on_validation_error h agent_name error_msg =
     h\<lparr>all_flags := all_flags h @ [''VALIDATION_ERROR in '' @ agent_name @ '': '' @ error_msg]\<rparr>"

fun truthy :: "json \<Rightarrow> bool" where
  "truthy JNull = False"
| "truthy (JBool b) = b"
| "truthy (JNum r) = (r \<noteq> 0)"
| "truthy (JStr s) = (s \<noteq> [])"
| "truthy (JArr xs) = (xs \<noteq> [])"
| "truthy (JObj kvs) = (kvs \<noteq> [])"

fun py_len :: "json \<Rightarrow> error + nat" where
  "py_len (JStr s) = Inr (length s)"
| "py_len (JArr xs) = Inr (length xs)"
| "py_len (JObj kvs) = Inr (length kvs)"
| "py_len _ = Inl TypeError"

fun iter_json :: "json \<Rightarrow> error + json list" where
  \<comment> \<open>the items that \<open>for x in v\<close> visits\<close>
  "iter_json (JArr xs) = Inr xs"
| "iter_json (JStr s) = Inr (map (\<lambda>c. JStr [c]) s)"
| "iter_json (JObj kvs) = Inr (map (\<lambda>(k, v). JStr k) kvs)"
| "iter_json _ = Inl TypeError"

definition fstr :: "pylib \<Rightarrow> json \<Rightarrow> string" where
  \<comment> \<open>\<open>f"{x}"\<close>\<close>
  "fstr L x = (case x of JStr s \<Rightarrow> s | _ \<Rightarrow> py_str L x)"

definition on_quality_check ::
  "pylib \<Rightarrow> PipelineHooks \<Rightarrow> string \<Rightarrow> json \<Rightarrow> error + PipelineHooks" where
  "on_quality_check L h agent_name quality_issues =
     (if truthy quality_issues
      then bind_res (iter_json quality_issues) (\<lambda>issues.
             Inr (foldl (\<lambda>h issue.
                    h\<lparr>all_flags := all_flags h
                         @ [''QUALITY_ISSUE in '' @ agent_name @ '': '' @ fstr L issue]\<rparr>)
                    h issues))
      else Inr h)"

section \<open>pipeline.py\<close>

record PatentRelevanceOutput =
  idea_id :: string
  dimension_scores :: "(string \<times> real) list"
  normalized_scores :: "(string \<times> real) list"
  patent_relevance_score :: real
  swot :: SWOT
  confidence_level :: string    \<comment> \<open>the field \<open>confidence\<close>\<close>
  evidence_map :: "(string \<times> evidence) list"
  flags :: "string list"
  usage_summary :: "(string \<times> int) list"

fun ints_of :: "(string \<times> real) list \<Rightarrow> (string \<times> int) list option" where
  \<comment> \<open>what pydantic accepts for \<open>Dict[str, int]\<close>: an \<open>int\<close>, or a \<open>float\<close> with no
      fractional part\<close>
  "ints_of [] = Some []"
| "ints_of ((k, v) # kvs) =
     (if v = of_int \<lfloor>v\<rfloor>
      then (case ints_of kvs of None \<Rightarrow> None | Some r \<Rightarrow> Some ((k, \<lfloor>v\<rfloor>) # r))
      else None)"

definition new_PatentRelevanceOutput ::
  "string \<Rightarrow> (string \<times> real) list \<Rightarrow> (string \<times> real) list \<Rightarrow> real \<Rightarrow> SWOT \<Rightarrow> json
     \<Rightarrow> (string \<times> evidence) list \<Rightarrow> json \<Rightarrow> (string \<times> real) list
     \<Rightarrow> error + PatentRelevanceOutput" where
  "new_PatentRelevanceOutput iid raws nrms prs sw conf ev fl usage =
     (if \<not> (0 \<le> prs \<and> prs \<le> 100) then Inl PydanticError
      else case (str_of conf, str_list_of fl, ints_of usage) of
        (Some c, Some fs, Some us) \<Rightarrow>
          if c = ''low'' \<or> c = ''medium'' \<or> c = ''high''
          then Inr \<lparr>idea_id = iid, dimension_scores = raws, normalized_scores = nrms,
                    patent_relevance_score = prs, swot = sw, confidence_level = c,
                    evidence_map = ev, flags = fs, usage_summary = us\<rparr>
          else Inl PydanticError
      | _ \<Rightarrow> Inl PydanticError)"

definition in_hooks ::
  "PipelineHooks option \<Rightarrow> (PipelineHooks \<Rightarrow> error + PipelineHooks)
     \<Rightarrow> error + PipelineHooks option" where
  \<comment> \<open>\<open>if self.hooks: ...\<close>\<close>
  "in_hooks hooks f =
     (case hooks of None \<Rightarrow> Inr None | Some h \<Rightarrow> bind_res (f h) (\<lambda>h'. Inr (Some h')))"

definition signal_agents :: "string list" where
  "signal_agents =
     [TechnologySignalAgent, MarketSignalAgent, ProductLandscapeAgent,
      RegulatorySignalAgent, StrategicLeverageAgent, TimingAgent]"

definition usage_of :: "pylib \<Rightarrow> PipelineHooks option \<Rightarrow> (string \<times> real) list" where
  \<comment> \<open>\<open>usage_summary\<close>, from \<open>get_summary\<close>\<close>
  "usage_of L hooks =
     (case hooks of
        None \<Rightarrow> []
      | Some h \<Rightarrow>
          [(''total_tokens'', of_int (total_tokens h)),
           (''estimated_cost'', round_nd L (total_cost h) 4),
           (''duration_seconds'',
              round_nd L (foldl (+) 0 (map (\<lambda>(n, m). m_duration_seconds m) (metrics h))) 2),
           (''agents_executed'', of_nat (length (metrics h)))])"

definition started :: "PipelineHooks option \<Rightarrow> PipelineHooks option" where
  \<comment> \<open>\<open>self.hooks\<close> after the six calls of \<open>on_agent_start\<close> that open step 2\<close>
  "started hooks = map_option (\<lambda>h. foldl on_agent_start h signal_agents) hooks"

definition evaluate ::
  "pylib \<Rightarrow> service \<Rightarrow> PipelineHooks option \<Rightarrow> InventionInput
     \<Rightarrow> error + (PipelineHooks option \<times> PatentRelevanceOutput)" where
  \<comment> \<open>\<open>hooks\<close> is \<open>self.hooks\<close> when the call starts; the first component of the
      result is \<open>self.hooks\<close> when it returns. The six coroutines given to
      \<open>asyncio.gather\<close> never suspend, so they run one after the other in the
      order written, and the first exception is the one that \<open>gather\<close> raises.\<close>
  "evaluate L S hooks invention =
     bind_res (triage L S invention) (\<lambda>triaged.
     bind_res (in_hooks hooks (\<lambda>h. Inr (foldl on_agent_start h signal_agents))) (\<lambda>hooks.
     bind_res (compute_signal L S TechnologySignalAgent triaged) (\<lambda>tech_score.
     bind_res (compute_signal L S MarketSignalAgent triaged) (\<lambda>market_score.
     bind_res (compute_signal L S ProductLandscapeAgent triaged) (\<lambda>product_score.
     bind_res (compute_signal L S RegulatorySignalAgent triaged) (\<lambda>regulatory_score.
     bind_res (compute_signal L S StrategicLeverageAgent triaged) (\<lambda>strategic_score.
     bind_res (compute_signal L S TimingAgent triaged) (\<lambda>timing_score.
     case validate_multiple_scores L
            [tech_score, market_score, product_score, regulatory_score, strategic_score,
             timing_score] 6 of
       (is_valid, validation_issues) \<Rightarrow>
     bind_res (if \<not> is_valid
               then in_hooks hooks (\<lambda>h.
                      Inr (foldl (\<lambda>h issue. on_validation_error h ''signals_batch'' issue)
                             h validation_issues))
               else Inr hooks) (\<lambda>hooks.
     bind_res (calculate_prs tech_score market_score product_score strategic_score
                 timing_score regulatory_score) (\<lambda>(prs, raw_scores, normalized_scores',
                                                    evidence_map').
     bind_res (review L S raw_scores evidence_map') (\<lambda>(confidence', flags').
     bind_res (case confidence' of JStr c \<Rightarrow> Inr () | _ \<Rightarrow> Inl AttributeError) (\<lambda>_.
     bind_res (if truthy flags'
               then bind_res (py_len flags') (\<lambda>_.
                      in_hooks hooks (\<lambda>h. on_quality_check L h ''reviewer'' flags'))
               else Inr hooks) (\<lambda>hooks.
     bind_res (generate_swot L normalized_scores') (\<lambda>swot'.
     bind_res (new_PatentRelevanceOutput (in_idea_id invention) raw_scores
                 normalized_scores' prs swot' confidence' evidence_map' flags'
                 (usage_of L hooks)) (\<lambda>output.
     Inr (hooks, output))))))))))))))))"

section \<open>Sample inputs\<close>

text \<open>
  Concrete inputs at which the theorems below are instantiated: completions of the
  text-generation service, a library whose \<open>json.loads\<close> knows these completions, and a
  service that answers with them. \<open>sample_format\<close> prints a non-negative number with \<open>n\<close>
  decimals, rounding half up.
\<close>

definition sample_score :: "real \<Rightarrow> DimensionScore" where
  "sample_score r = \<lparr>raw_score = r, normalized_score = r / 5 * 100, sources = [''survey''],
     agent = ''TimingAgent'', notes = ''steady growth'', confidence = 0.5\<rparr>"

definition good_reply :: string where
  \<open>good_reply = ''{"aggregate_score": 4, "sources": ["survey"], "notes": "steady growth", "confidence": 0.8}''\<close>

definition bare_reply :: string where
  \<open>bare_reply = ''{"sources": ["survey"], "notes": "steady growth"}''\<close>

definition top_reply :: string where
  \<open>top_reply = ''{"aggregate_score": 5, "sources": ["survey"], "notes": "steady growth"}''\<close>

definition sure_reply :: string where
  \<open>sure_reply = ''{"aggregate_score": 3, "sources": ["survey"], "notes": "steady growth", "confidence": 1.5}''\<close>

definition list_reply :: string where
  \<open>list_reply = ''[1, 2]''\<close>

definition broken_reply :: string where
  \<open>broken_reply = ''{"aggregate_score": 4, "sources"''\<close>

definition triage_reply :: string where
  \<open>triage_reply = ''{"core_concept": "code review", "technical_keywords": ["llm"], "application_domains": ["devops"], "analysis_depth": "full"}''\<close>

definition review_reply :: string where
  \<open>review_reply = ''{"confidence": "high", "flags": []}''\<close>

definition doubt_reply :: string where
  \<open>doubt_reply = ''{"confidence": "low", "flags": ["thin evidence"]}''\<close>

definition sample_loads :: "string \<Rightarrow> json option" where
  "sample_loads = map_of
     [(good_reply, JObj [(''aggregate_score'', JNum 4), (''sources'', JArr [JStr ''survey'']),
                         (''notes'', JStr ''steady growth''), (''confidence'', JNum 0.8)]),
      (bare_reply, JObj [(''sources'', JArr [JStr ''survey'']), (''notes'', JStr ''steady growth'')]),
      (top_reply, JObj [(''aggregate_score'', JNum 5), (''sources'', JArr [JStr ''survey'']),
                        (''notes'', JStr ''steady growth'')]),
      (sure_reply, JObj [(''aggregate_score'', JNum 3), (''sources'', JArr [JStr ''survey'']),
                         (''notes'', JStr ''steady growth''), (''confidence'', JNum 1.5)]),
      (list_reply, JArr [JNum 1, JNum 2]),
      (triage_reply, JObj [(''core_concept'', JStr ''code review''),
                           (''technical_keywords'', JArr [JStr ''llm'']),
                           (''application_domains'', JArr [JStr ''devops'']),
                           (''analysis_depth'', JStr ''full'')]),
      (review_reply, JObj [(''confidence'', JStr ''high''), (''flags'', JArr [])]),
      (doubt_reply, JObj [(''confidence'', JStr ''low''),
                          (''flags'', JArr [JStr ''thin evidence''])])]"

definition sample_format :: "nat \<Rightarrow> real \<Rightarrow> string" where
  "sample_format n x =
     (let k = nat \<lfloor>x * 10 ^ n + 1 / 2\<rfloor>
      in digits_of_nat (k div 10 ^ n) @ ''.''
         @ replicate (n - length (digits_of_nat (k mod 10 ^ n))) CHR ''0''
         @ digits_of_nat (k mod 10 ^ n))"

definition sample_lib :: pylib where
  "sample_lib =
     \<lparr>json_loads = sample_loads,
      float_of_str = map_of [(''3.5'', 3.5)],
      format_f = sample_format,
      round_nd = (\<lambda>x n. of_int \<lfloor>x * 10 ^ n + 1 / 2\<rfloor> / 10 ^ n),
      py_str = (\<lambda>x. case x of JNull \<Rightarrow> ''None'' | JBool b \<Rightarrow> (if b then ''True'' else ''False'')
                     | _ \<Rightarrow> ''...'')\<rparr>"

definition sample_service :: "(string \<Rightarrow> string) \<Rightarrow> service" where
  "sample_service reply =
     \<lparr>triage_response = (\<lambda>invention. Inr triage_reply),
      signal_response = (\<lambda>name triaged. Inr (reply name)),
      reviewer_response = (\<lambda>raw_scores evidence_map. Inr review_reply)\<rparr>"

definition sample_invention :: InventionInput where
  "sample_invention =
     \<lparr>in_idea_id = ''IDEA-001'', in_title = ''AI-Powered Code Review Assistant'',
      in_description = ''An AI system that reviews code commits in real time'',
      in_technical_domain = ''Software Engineering Tools'',
      in_application_domains = [''DevOps'']\<rparr>"

definition new_hooks :: PipelineHooks where
  "new_hooks = \<lparr>metrics = [], all_flags = [], total_tokens = 0, total_cost = 0\<rparr>"

definition sample_triaged :: TriagedInvention where
  "sample_triaged =
     \<lparr>tr_idea_id = ''IDEA-001'', core_concept = ''code review'',
      technical_keywords = [''llm''], tr_application_domains = [''devops''],
      analysis_depth = ''full''\<rparr>"

definition guarded_broken :: "string \<Rightarrow> string" where
  \<comment> \<open>the two guardrailed agents get an unparseable completion, the other four one
      without \<open>aggregate_score\<close>\<close>
  "guarded_broken name =
     (if name = TechnologySignalAgent \<or> name = MarketSignalAgent then broken_reply
      else bare_reply)"

definition fallback_record :: "string \<Rightarrow> DimensionScore" where
  "fallback_record name =
     \<lparr>raw_score = 2.5, normalized_score = 50, sources = [''fallback_default''],
      agent = name, notes = ''Validation error occurred; using default score'',
      confidence = 0.3\<rparr>"

definition good_score :: "string \<Rightarrow> real \<Rightarrow> DimensionScore" where
  "good_score name c =
     \<lparr>raw_score = 4, normalized_score = 80, sources = [''survey''], agent = name,
      notes = ''steady growth'', confidence = c\<rparr>"

definition all_fifty :: "(string \<times> real) list" where
  "all_fifty =
     [(''tech_momentum'', 50), (''market_gravity'', 50), (''white_space'', 50),
      (''strategic_leverage'', 50), (''timing'', 50), (''regulatory_alignment'', 50)]"

definition sample_evidence :: "string \<Rightarrow> evidence" where
  "sample_evidence name =
     \<lparr>ev_sources = [''survey''], ev_agent = name, ev_notes = ''steady growth''\<rparr>"

definition sample_output :: "real \<Rightarrow> (string \<times> int) list \<Rightarrow> PatentRelevanceOutput" where
  \<comment> \<open>what \<open>evaluate\<close> returns when every agent reports the raw score \<open>r \<ge> 3.5\<close> and the
      reviewer answers \<open>review_reply\<close>\<close>
  "sample_output r usage =
     \<lparr>idea_id = ''IDEA-001'',
      dimension_scores = map (\<lambda>(d, w). (d, r)) SCORING_WEIGHTS,
      normalized_scores = map (\<lambda>(d, w). (d, r / 5 * 100)) SCORING_WEIGHTS,
      patent_relevance_score = r / 5 * 100,
      swot = \<lparr>strengths = map (\<lambda>(d, w). score_entry sample_lib d (r / 5 * 100)) SCORING_WEIGHTS,
               weaknesses = [],
               opportunities = [tagged_entry sample_lib ''Strong market potential'' (r / 5 * 100),
                                tagged_entry sample_lib ''Favorable timing'' (r / 5 * 100)],
               threats = []\<rparr>,
      confidence_level = ''high'',
      evidence_map =
        [(''tech_momentum'', sample_evidence TechnologySignalAgent),
         (''market_gravity'', sample_evidence MarketSignalAgent),
         (''white_space'', sample_evidence ProductLandscapeAgent),
         (''strategic_leverage'', sample_evidence StrategicLeverageAgent),
         (''timing'', sample_evidence TimingAgent),
         (''regulatory_alignment'', sample_evidence RegulatorySignalAgent)],
      flags = [],
      usage_summary = usage\<rparr>"

definition doubt_output :: PatentRelevanceOutput where
  "doubt_output = (sample_output 4 [])\<lparr>confidence_level := ''low'', flags := [''thin evidence'']\<rparr>"

definition top_score :: "string \<Rightarrow> DimensionScore" where
  "top_score name =
     \<lparr>raw_score = 5, normalized_score = 100, sources = [''survey''], agent = name,
      notes = ''steady growth'', confidence = 0.5\<rparr>"

definition top_issues :: "string list" where
  "top_issues = map (\<lambda>name. name @ '': High score 100.0 with low confidence 0.50'') signal_agents"

definition hooks_usage :: "(string \<times> int) list" where
  "hooks_usage =
     [(''total_tokens'', 0), (''estimated_cost'', 0), (''duration_seconds'', 0),
      (''agents_executed'', 6)]"

section \<open>The guardrail's conditions, as claim C2 words them\<close>






section \<open>Auxiliary facts\<close>

lemma bind_res_InrE:
  assumes "bind_res r f = Inr y"
  obtains x where "r = Inr x" "f x = Inr y"
  using assms by (cases r) (simp_all add: bind_res_def)

lemma bind_res_simps [simp]: "bind_res (Inr x) f = f x" "bind_res (Inl e) f = Inl e"
  by (simp_all add: bind_res_def)

lemma new_DimensionScore_fields:
  assumes "new_DimensionScore r n srcs ag nts c = Inr d"
  shows "raw_score d = r \<and> normalized_score d = n \<and> agent d = ag \<and> confidence d = c
    \<and> 0 \<le> r \<and> r \<le> 5 \<and> 0 \<le> c \<and> c \<le> 1"
  using assms
  by (auto simp: new_DimensionScore_def split: if_splits option.splits)

lemma validate_normalized:
  assumes "validate_dimension_score L raw_json name mc = Inr d"
  shows "normalized_score d = raw_score d / 5 * 100"
  using assms
  by (auto simp: validate_dimension_score_def
      elim!: bind_res_InrE dest!: new_DimensionScore_fields
      split: option.split_asm sum.split_asm)

lemma fallback_score_value:
  "fallback_score name =
     Inr \<lparr>raw_score = 2.5, normalized_score = 50, sources = [''fallback_default''],
          agent = name, notes = ''Validation error occurred; using default score'',
          confidence = 0.3\<rparr>"
proof -
  have a: "strip ''fallback_default'' \<noteq> []" by code_simp
  have b: "length (strip ''Validation error occurred; using default score'') = 46" by code_simp
  show ?thesis
    by (simp add: fallback_score_def new_DimensionScore_def a b)
qed

lemma guarded_normalized:
  assumes "guarded_compute_signal L name response = Inr d"
  shows "normalized_score d = raw_score d / 5 * 100"
  using assms
  by (auto simp: guarded_compute_signal_def fallback_score_value
      elim!: bind_res_InrE dest: validate_normalized split: sum.split_asm if_split_asm)

lemma unguarded_normalized:
  assumes "unguarded_compute_signal L name dflt response = Inr d"
  shows "normalized_score d = raw_score d / 5 * 100"
  using assms
  by (auto simp: unguarded_compute_signal_def elim!: bind_res_InrE
      dest!: new_DimensionScore_fields)

lemma compute_signal_normalized:
  assumes "compute_signal L S name triaged = Inr d"
  shows "normalized_score d = raw_score d / 5 * 100"
  using assms
  by (auto simp: compute_signal_def dest: guarded_normalized unguarded_normalized
      split: if_splits)

lemma split_acc_nonempty: "split_acc sep cur s \<noteq> []"
  by (induction sep cur s rule: split_acc.induct) auto

lemma split_prefix_length:
  assumes "sep \<noteq> []" "prefix sep s"
  shows "2 \<le> length (split sep s)"
proof (cases s)
  case Nil
  with assms show ?thesis by simp
next
  case (Cons c cs)
  have "split_acc sep [] (drop (length sep) (c # cs)) \<noteq> []" by (rule split_acc_nonempty)
  then have "1 \<le> length (split_acc sep [] (drop (length sep) (c # cs)))"
    by (cases "split_acc sep [] (drop (length sep) (c # cs))") simp_all
  with assms Cons show ?thesis by (simp add: split_def)
qed

lemma sanitize_total: "\<exists>t. sanitize_llm_output s = Inr t"
proof (cases "prefix fence (strip s)")
  case True
  have "fence \<noteq> []" by (simp add: fence_def)
  from split_prefix_length [OF this True] have "1 < length (split fence (strip s))" by simp
  with True show ?thesis by (simp add: sanitize_llm_output_def item_def Let_def)
next
  case False
  then show ?thesis by (simp add: sanitize_llm_output_def Let_def)
qed

lemma strip_Nil [simp]: "strip [] = []"
  by (simp add: strip_def lstrip_def rstrip_def)

lemma rstrip_Cons:
  assumes "\<not> isspace x"
  shows "rstrip (x # xs) = x # rstrip xs"
  using assms by (simp add: rstrip_def dropWhile_append dropWhile_eq_Nil_conv)

lemma lstrip_rstrip_lstrip: "lstrip (rstrip (lstrip s)) = rstrip (lstrip s)"
proof (cases "lstrip s")
  case Nil
  then show ?thesis by (simp add: rstrip_def) (simp add: lstrip_def)
next
  case (Cons x xs)
  then have "\<not> isspace x"
    unfolding lstrip_def by (metis hd_dropWhile list.distinct(1) list.sel(1))
  with Cons show ?thesis by (simp add: rstrip_Cons) (simp add: lstrip_def)
qed

lemma rstrip_idem: "rstrip (rstrip s) = rstrip s"
  by (simp add: rstrip_def)

lemma strip_idem: "strip (strip s) = strip s"
  by (simp add: strip_def lstrip_rstrip_lstrip rstrip_idem)


section \<open>Properties of the aggregator\<close>

lemma calculate_prs_value:
  "calculate_prs tm mg ws sl ti ra =
     Inr (raw_score tm / 5 * 100 * 0.20 + raw_score mg / 5 * 100 * 0.25
            + raw_score ws / 5 * 100 * 0.20 + raw_score sl / 5 * 100 * 0.15
            + raw_score ti / 5 * 100 * 0.10 + raw_score ra / 5 * 100 * 0.10,
          [(''tech_momentum'', raw_score tm), (''market_gravity'', raw_score mg),
           (''white_space'', raw_score ws), (''strategic_leverage'', raw_score sl),
           (''timing'', raw_score ti), (''regulatory_alignment'', raw_score ra)],
          [(''tech_momentum'', raw_score tm / 5 * 100),
           (''market_gravity'', raw_score mg / 5 * 100),
           (''white_space'', raw_score ws / 5 * 100),
           (''strategic_leverage'', raw_score sl / 5 * 100),
           (''timing'', raw_score ti / 5 * 100),
           (''regulatory_alignment'', raw_score ra / 5 * 100)],
          [(''tech_momentum'', evidence_of tm), (''market_gravity'', evidence_of mg),
           (''white_space'', evidence_of ws), (''strategic_leverage'', evidence_of sl),
           (''timing'', evidence_of ti), (''regulatory_alignment'', evidence_of ra)])"
  by (simp add: calculate_prs_def SCORING_WEIGHTS_def getitem_def bind_res_def)

lemma weights_sum_one: "sum_list (map snd SCORING_WEIGHTS) = 1"
  by (simp add: SCORING_WEIGHTS_def)

text \<open>
  Claim C1. For six dimension scores whose raw scores lie in \<open>[0, 5]\<close>, \<open>calculate_prs\<close>
  returns, and its first component is the sum over the six dimensions of
  \<open>raw_score / 5 * 100\<close> times the fixed weight of the dimension; the six weights sum
  to one; and the composite lies in \<open>[0, 100]\<close>.
\<close>

theorem calculate_prs_weighted_in_range:
  assumes "\<forall>d \<in> {tm, mg, ws, sl, ti, ra}. 0 \<le> raw_score d \<and> raw_score d \<le> 5"
  shows "\<exists>prs raw nrm ev.
           calculate_prs tm mg ws sl ti ra = Inr (prs, raw, nrm, ev)
         \<and> prs = raw_score tm / 5 * 100 * 0.20 + raw_score mg / 5 * 100 * 0.25
               + raw_score ws / 5 * 100 * 0.20 + raw_score sl / 5 * 100 * 0.15
               + raw_score ti / 5 * 100 * 0.10 + raw_score ra / 5 * 100 * 0.10
         \<and> map_of SCORING_WEIGHTS ''tech_momentum'' = Some 0.20
         \<and> map_of SCORING_WEIGHTS ''market_gravity'' = Some 0.25
         \<and> map_of SCORING_WEIGHTS ''white_space'' = Some 0.20
         \<and> map_of SCORING_WEIGHTS ''strategic_leverage'' = Some 0.15
         \<and> map_of SCORING_WEIGHTS ''timing'' = Some 0.10
         \<and> map_of SCORING_WEIGHTS ''regulatory_alignment'' = Some 0.10
         \<and> sum_list (map snd SCORING_WEIGHTS) = 1
         \<and> 0 \<le> prs \<and> prs \<le> 100"
proof -
  from assms have b:
    "0 \<le> raw_score tm" "raw_score tm \<le> 5" "0 \<le> raw_score mg" "raw_score mg \<le> 5"
    "0 \<le> raw_score ws" "raw_score ws \<le> 5" "0 \<le> raw_score sl" "raw_score sl \<le> 5"
    "0 \<le> raw_score ti" "raw_score ti \<le> 5" "0 \<le> raw_score ra" "raw_score ra \<le> 5"
    by simp_all
  let ?p = "raw_score tm / 5 * 100 * 0.20 + raw_score mg / 5 * 100 * 0.25
               + raw_score ws / 5 * 100 * 0.20 + raw_score sl / 5 * 100 * 0.15
               + raw_score ti / 5 * 100 * 0.10 + raw_score ra / 5 * 100 * 0.10"
  have lo: "0 \<le> ?p" using b by simp
  have hi: "?p \<le> 100" using b by simp
  have w: "map_of SCORING_WEIGHTS ''tech_momentum'' = Some 0.20"
    "map_of SCORING_WEIGHTS ''market_gravity'' = Some 0.25"
    "map_of SCORING_WEIGHTS ''white_space'' = Some 0.20"
    "map_of SCORING_WEIGHTS ''strategic_leverage'' = Some 0.15"
    "map_of SCORING_WEIGHTS ''timing'' = Some 0.10"
    "map_of SCORING_WEIGHTS ''regulatory_alignment'' = Some 0.10"
    by (simp_all add: SCORING_WEIGHTS_def)
  show ?thesis
    using calculate_prs_value [of tm mg ws sl ti ra] lo hi w weights_sum_one by simp
qed

theorem calculate_prs_weighted_in_range_witness:
  "0 \<le> raw_score (sample_score 5) \<and> raw_score (sample_score 5) \<le> 5
   \<and> 0 \<le> raw_score (sample_score 0) \<and> raw_score (sample_score 0) \<le> 5
   \<and> 0 \<le> raw_score (sample_score 1) \<and> raw_score (sample_score 1) \<le> 5
   \<and> 0 \<le> raw_score (sample_score 2) \<and> raw_score (sample_score 2) \<le> 5
   \<and> 0 \<le> raw_score (sample_score 3) \<and> raw_score (sample_score 3) \<le> 5
   \<and> 0 \<le> raw_score (sample_score 4) \<and> raw_score (sample_score 4) \<le> 5
   \<and> (\<exists>prs raw nrm ev.
         calculate_prs (sample_score 5) (sample_score 0) (sample_score 1) (sample_score 2)
           (sample_score 3) (sample_score 4) = Inr (prs, raw, nrm, ev)
       \<and> prs = 100 * 0.20 + 0 * 0.25 + 20 * 0.20 + 40 * 0.15 + 60 * 0.10 + 80 * 0.10
       \<and> prs = 44 \<and> 0 \<le> prs \<and> prs \<le> 100)"
  using calculate_prs_weighted_in_range [of "sample_score 5" "sample_score 0" "sample_score 1"
      "sample_score 2" "sample_score 3" "sample_score 4"]
  by (simp add: sample_score_def)

section \<open>Properties of the guardrailed agents\<close>

text \<open>
  Claim C4. When \<open>validate_dimension_score\<close> raises \<open>ValidationError\<close> inside
  \<open>compute_signal\<close> of \<open>TechnologySignalAgent\<close> or \<open>MarketSignalAgent\<close>, the agent does not
  propagate the error: it returns the fixed fallback score, with raw score 2.5, normalized
  score 50, the one source \<open>fallback_default\<close>, the fixed notes and confidence 0.3.
\<close>

theorem guarded_agent_fallback:
  assumes "name = TechnologySignalAgent \<or> name = MarketSignalAgent"
    and "signal_response S name triaged = Inr content"
    and "sanitize_llm_output (strip content) = Inr clean_json"
    and "validate_dimension_score L clean_json name 0.3 = Inl ValidationError"
  shows "compute_signal L S name triaged =
           Inr \<lparr>raw_score = 2.5, normalized_score = 50.0, sources = [''fallback_default''],
                agent = name, notes = ''Validation error occurred; using default score'',
                confidence = 0.3\<rparr>"
  using assms
  by (auto simp: compute_signal_def guarded_compute_signal_def fallback_score_value)

theorem guarded_agent_fallback_witness:
  "(MarketSignalAgent = TechnologySignalAgent \<or> MarketSignalAgent = MarketSignalAgent)
   \<and> signal_response (sample_service (\<lambda>n. broken_reply)) MarketSignalAgent sample_triaged
       = Inr broken_reply
   \<and> sanitize_llm_output (strip broken_reply) = Inr broken_reply
   \<and> validate_dimension_score sample_lib broken_reply MarketSignalAgent 0.3
       = Inl ValidationError
   \<and> compute_signal sample_lib (sample_service (\<lambda>n. broken_reply)) MarketSignalAgent
         sample_triaged =
       Inr \<lparr>raw_score = 2.5, normalized_score = 50.0, sources = [''fallback_default''],
            agent = MarketSignalAgent,
            notes = ''Validation error occurred; using default score'', confidence = 0.3\<rparr>"
proof -
  have h1: "MarketSignalAgent = TechnologySignalAgent \<or> MarketSignalAgent = MarketSignalAgent"
    by simp
  have h2: "signal_response (sample_service (\<lambda>n. broken_reply)) MarketSignalAgent
              sample_triaged = Inr broken_reply"
    by (simp add: sample_service_def)
  have h3: "sanitize_llm_output (strip broken_reply) = Inr broken_reply"
    by code_simp
  have h4: "validate_dimension_score sample_lib broken_reply MarketSignalAgent 0.3
              = Inl ValidationError"
    by code_simp
  from guarded_agent_fallback [OF h1 h2 h3 h4] h1 h2 h3 h4 show ?thesis
    by blast
qed

section \<open>The normalization equation\<close>

text \<open>
  Claim C7. Every place that constructs a dimension score passes
  \<open>raw_score / 5 * 100\<close> as the normalized score: the guardrail validator when it
  succeeds, the fixed fallback, and \<open>compute_signal\<close> of each of the six agents. The map
  of normalized scores that \<open>calculate_prs\<close> returns is its map of raw scores over the six
  dimensions, each value \<open>v\<close> replaced by \<open>v / 5 * 100\<close>.
\<close>

theorem normalized_score_is_scaled_raw_score:
  "(validate_dimension_score L raw_json name mc = Inr d1
      \<longrightarrow> normalized_score d1 = raw_score d1 / 5 * 100)
   \<and> (fallback_score name = Inr d2 \<longrightarrow> normalized_score d2 = raw_score d2 / 5 * 100)
   \<and> (compute_signal L S name triaged = Inr d3
      \<longrightarrow> normalized_score d3 = raw_score d3 / 5 * 100)
   \<and> (calculate_prs tm mg ws sl ti ra = Inr (prs, raw, nrm, ev)
      \<longrightarrow> map fst raw = [''tech_momentum'', ''market_gravity'', ''white_space'',
                          ''strategic_leverage'', ''timing'', ''regulatory_alignment'']
        \<and> nrm = map (\<lambda>(k, v). (k, v / 5 * 100)) raw)"
proof -
  have "normalized_score d2 = raw_score d2 / 5 * 100" if "fallback_score name = Inr d2"
    using that by (auto simp: fallback_score_value)
  moreover have "map fst raw = [''tech_momentum'', ''market_gravity'', ''white_space'',
                          ''strategic_leverage'', ''timing'', ''regulatory_alignment'']
        \<and> nrm = map (\<lambda>(k, v). (k, v / 5 * 100)) raw"
    if "calculate_prs tm mg ws sl ti ra = Inr (prs, raw, nrm, ev)"
    using that by (auto simp: calculate_prs_value)
  ultimately show ?thesis
    using validate_normalized [of L raw_json name mc d1]
      compute_signal_normalized [of L S name triaged d3]
    by blast
qed

theorem normalized_score_is_scaled_raw_score_witness:
  "validate_dimension_score sample_lib good_reply MarketSignalAgent 0.3
     = Inr (good_score MarketSignalAgent 0.8)
   \<and> normalized_score (good_score MarketSignalAgent 0.8)
       = raw_score (good_score MarketSignalAgent 0.8) / 5 * 100
   \<and> fallback_score MarketSignalAgent = Inr (fallback_record MarketSignalAgent)
   \<and> normalized_score (fallback_record MarketSignalAgent)
       = raw_score (fallback_record MarketSignalAgent) / 5 * 100
   \<and> compute_signal sample_lib (sample_service (\<lambda>n. good_reply)) TimingAgent sample_triaged
       = Inr (good_score TimingAgent 0.5)
   \<and> normalized_score (good_score TimingAgent 0.5)
       = raw_score (good_score TimingAgent 0.5) / 5 * 100
   \<and> calculate_prs (sample_score 5) (sample_score 0) (sample_score 1) (sample_score 2)
         (sample_score 3) (sample_score 4)
       = Inr (44,
              [(''tech_momentum'', 5), (''market_gravity'', 0), (''white_space'', 1),
               (''strategic_leverage'', 2), (''timing'', 3), (''regulatory_alignment'', 4)],
              [(''tech_momentum'', 100), (''market_gravity'', 0), (''white_space'', 20),
               (''strategic_leverage'', 40), (''timing'', 60), (''regulatory_alignment'', 80)],
              map (\<lambda>(k, d). (k, evidence_of d))
                [(''tech_momentum'', sample_score 5), (''market_gravity'', sample_score 0),
                 (''white_space'', sample_score 1), (''strategic_leverage'', sample_score 2),
                 (''timing'', sample_score 3), (''regulatory_alignment'', sample_score 4)])"
proof -
  have h1: "validate_dimension_score sample_lib good_reply MarketSignalAgent 0.3
     = Inr (good_score MarketSignalAgent 0.8)" by code_simp
  have h2: "fallback_score MarketSignalAgent = Inr (fallback_record MarketSignalAgent)"
    by (simp add: fallback_score_value fallback_record_def)
  have h3: "compute_signal sample_lib (sample_service (\<lambda>n. good_reply)) TimingAgent
      sample_triaged = Inr (good_score TimingAgent 0.5)" by code_simp
  have h4: "calculate_prs (sample_score 5) (sample_score 0) (sample_score 1) (sample_score 2)
         (sample_score 3) (sample_score 4)
       = Inr (44,
              [(''tech_momentum'', 5), (''market_gravity'', 0), (''white_space'', 1),
               (''strategic_leverage'', 2), (''timing'', 3), (''regulatory_alignment'', 4)],
              [(''tech_momentum'', 100), (''market_gravity'', 0), (''white_space'', 20),
               (''strategic_leverage'', 40), (''timing'', 60), (''regulatory_alignment'', 80)],
              map (\<lambda>(k, d). (k, evidence_of d))
                [(''tech_momentum'', sample_score 5), (''market_gravity'', sample_score 0),
                 (''white_space'', sample_score 1), (''strategic_leverage'', sample_score 2),
                 (''timing'', sample_score 3), (''regulatory_alignment'', sample_score 4)])"
    by (simp add: calculate_prs_value sample_score_def)
  from normalized_score_is_scaled_raw_score [of sample_lib good_reply MarketSignalAgent "0.3"
      "good_score MarketSignalAgent 0.8" "fallback_record MarketSignalAgent"
      "sample_service (\<lambda>n. good_reply)" sample_triaged "good_score MarketSignalAgent 0.8"]
    normalized_score_is_scaled_raw_score [of sample_lib good_reply TimingAgent "0.3"
      "good_score MarketSignalAgent 0.8" "fallback_record MarketSignalAgent"
      "sample_service (\<lambda>n. good_reply)" sample_triaged "good_score TimingAgent 0.5"]
    h1 h2 h3 h4
  show ?thesis by blast
qed


section \<open>The synthesizer is partial\<close>

lemma generate_swot_all_fifty: "generate_swot L all_fifty = Inl PydanticError"
  by (simp add: generate_swot_def all_fifty_def get_default_def new_SWOT_def)

text \<open>
  Claim C10. \<open>generate_swot\<close> raises on the map that gives every dimension the
  normalized score 50, whose values lie in \<open>[0, 100]\<close>: no threshold is met, the four
  lists stay empty and the \<open>SWOT\<close> constructor rejects them. This is the map that
  \<open>calculate_prs\<close> returns for six fallback scores, and also for the two fallback scores
  and four default scores of the sample service, on which the whole evaluation raises.
\<close>

theorem generate_swot_not_total:
  "generate_swot L all_fifty = Inl PydanticError
   \<and> map snd all_fifty = [50, 50, 50, 50, 50, 50]
   \<and> (\<exists>prs raw ev.
         calculate_prs (fallback_record n1) (fallback_record n2) (fallback_record n3)
           (fallback_record n4) (fallback_record n5) (fallback_record n6)
         = Inr (prs, raw, all_fifty, ev))
   \<and> (\<exists>d1 d2 d3 d4 d5 d6 prs raw ev.
         compute_signal sample_lib (sample_service guarded_broken) TechnologySignalAgent
           sample_triaged = Inr d1
       \<and> compute_signal sample_lib (sample_service guarded_broken) MarketSignalAgent
           sample_triaged = Inr d2
       \<and> compute_signal sample_lib (sample_service guarded_broken) ProductLandscapeAgent
           sample_triaged = Inr d3
       \<and> compute_signal sample_lib (sample_service guarded_broken) RegulatorySignalAgent
           sample_triaged = Inr d4
       \<and> compute_signal sample_lib (sample_service guarded_broken) StrategicLeverageAgent
           sample_triaged = Inr d5
       \<and> compute_signal sample_lib (sample_service guarded_broken) TimingAgent
           sample_triaged = Inr d6
       \<and> calculate_prs d1 d2 d3 d5 d6 d4 = Inr (prs, raw, all_fifty, ev))
   \<and> evaluate sample_lib (sample_service guarded_broken) (Some new_hooks) sample_invention
       = Inl PydanticError"
proof -
  have a: "map snd all_fifty = [50, 50, 50, 50, 50, 50]"
    by (simp add: all_fifty_def)
  have b: "\<exists>prs raw ev.
         calculate_prs (fallback_record n1) (fallback_record n2) (fallback_record n3)
           (fallback_record n4) (fallback_record n5) (fallback_record n6)
         = Inr (prs, raw, all_fifty, ev)"
    by (simp add: calculate_prs_value fallback_record_def all_fifty_def)
  have c1: "compute_signal sample_lib (sample_service guarded_broken) TechnologySignalAgent
           sample_triaged = Inr (fallback_record TechnologySignalAgent)" by code_simp
  have c2: "compute_signal sample_lib (sample_service guarded_broken) MarketSignalAgent
           sample_triaged = Inr (fallback_record MarketSignalAgent)" by code_simp
  have c3: "compute_signal sample_lib (sample_service guarded_broken) ProductLandscapeAgent
           sample_triaged = Inr ((sample_score 2.5)\<lparr>agent := ProductLandscapeAgent\<rparr>)"
    by code_simp
  have c4: "compute_signal sample_lib (sample_service guarded_broken) RegulatorySignalAgent
           sample_triaged = Inr ((sample_score 2.5)\<lparr>agent := RegulatorySignalAgent\<rparr>)"
    by code_simp
  have c5: "compute_signal sample_lib (sample_service guarded_broken) StrategicLeverageAgent
           sample_triaged = Inr ((sample_score 2.5)\<lparr>agent := StrategicLeverageAgent\<rparr>)"
    by code_simp
  have c6: "compute_signal sample_lib (sample_service guarded_broken) TimingAgent
           sample_triaged = Inr ((sample_score 2.5)\<lparr>agent := TimingAgent\<rparr>)"
    by code_simp
  have c7: "\<exists>prs raw ev. calculate_prs (fallback_record TechnologySignalAgent)
      (fallback_record MarketSignalAgent)
      ((sample_score 2.5)\<lparr>agent := ProductLandscapeAgent\<rparr>)
      ((sample_score 2.5)\<lparr>agent := StrategicLeverageAgent\<rparr>)
      ((sample_score 2.5)\<lparr>agent := TimingAgent\<rparr>)
      ((sample_score 2.5)\<lparr>agent := RegulatorySignalAgent\<rparr>) = Inr (prs, raw, all_fifty, ev)"
    by (simp add: calculate_prs_value fallback_record_def all_fifty_def sample_score_def)
  have d: "evaluate sample_lib (sample_service guarded_broken) (Some new_hooks)
      sample_invention = Inl PydanticError"
    by code_simp
  from c1 c2 c3 c4 c5 c6 c7 have c: "\<exists>d1 d2 d3 d4 d5 d6 prs raw ev.
         compute_signal sample_lib (sample_service guarded_broken) TechnologySignalAgent
           sample_triaged = Inr d1
       \<and> compute_signal sample_lib (sample_service guarded_broken) MarketSignalAgent
           sample_triaged = Inr d2
       \<and> compute_signal sample_lib (sample_service guarded_broken) ProductLandscapeAgent
           sample_triaged = Inr d3
       \<and> compute_signal sample_lib (sample_service guarded_broken) RegulatorySignalAgent
           sample_triaged = Inr d4
       \<and> compute_signal sample_lib (sample_service guarded_broken) StrategicLeverageAgent
           sample_triaged = Inr d5
       \<and> compute_signal sample_lib (sample_service guarded_broken) TimingAgent
           sample_triaged = Inr d6
       \<and> calculate_prs d1 d2 d3 d5 d6 d4 = Inr (prs, raw, all_fifty, ev)"
    by simp
  from generate_swot_all_fifty a b c d show ?thesis by blast
qed

theorem generate_swot_not_total_witness:
  "generate_swot sample_lib all_fifty = Inl PydanticError
   \<and> evaluate sample_lib (sample_service guarded_broken) (Some new_hooks) sample_invention
       = Inl PydanticError"
  using generate_swot_not_total [of sample_lib] by blast

section \<open>The batch check\<close>

lemma high_score_loop_eq:
  "high_score_loop L issues scores =
     issues @ map (high_score_issue L)
       (filter (\<lambda>s. normalized_score s > 95 \<and> confidence s < 0.6) scores)"
  by (induction scores arbitrary: issues) simp_all

lemma foldl_plus_sum_list: "foldl (+) (a::real) xs = a + sum_list xs"
  by (induction xs arbitrary: a) simp_all

lemma validate_multiple_scores_eq:
  "validate_multiple_scores L scores required =
     (let avg = (if scores = [] then 0
                 else sum_list (map confidence scores) / real (length scores));
          issues = (if int (length scores) < required
                    then [too_few_issue (length scores) required] else [])
                 @ (if avg < 0.3 then [avg_confidence_issue L avg] else [])
                 @ map (high_score_issue L)
                     (filter (\<lambda>s. normalized_score s > 95 \<and> confidence s < 0.6) scores)
      in (issues = [], issues))"
  by (simp add: validate_multiple_scores_def high_score_loop_eq foldl_plus_sum_list Let_def)



section \<open>The synthesizer's rules\<close>

lemma strengths_loop_eq:
  "strengths_loop L acc m =
     acc @ map (\<lambda>(d, s). score_entry L d s) (filter (\<lambda>(d, s). s \<ge> 70) m)"
  by (induction m arbitrary: acc) auto

lemma weaknesses_loop_eq:
  "weaknesses_loop L acc m =
     acc @ map (\<lambda>(d, s). score_entry L d s) (filter (\<lambda>(d, s). s \<le> 40) m)"
  by (induction m arbitrary: acc) auto

text \<open>
  Claim C5. The four lists that \<open>generate_swot\<close> builds from a map \<open>m\<close> of normalized
  scores are: one strength entry for each dimension of \<open>m\<close> with score at least 70 and
  one weakness entry for each with score at most 40, in the order of \<open>m\<close>; the
  opportunity "Strong market potential" exactly when \<open>market_gravity\<close> is in \<open>m\<close> with
  score at least 65, followed by "Favorable timing" exactly when \<open>timing\<close> is in \<open>m\<close>
  with score at least 65, each decided alone; the threat "Regulatory friction" exactly
  when \<open>regulatory_alignment\<close> is in \<open>m\<close> with score at most 40, followed by
  "Crowded market" exactly when \<open>white_space\<close> is in \<open>m\<close> with score at most 40. A key
  that is absent adds nothing. \<open>generate_swot\<close> returns the record of these four lists,
  unless all four are empty (claim C10).
\<close>

theorem generate_swot_rules:
  "generate_swot L m =
     (let str = map (\<lambda>(d, s). score_entry L d s) (filter (\<lambda>(d, s). s \<ge> 70) m);
          wks = map (\<lambda>(d, s). score_entry L d s) (filter (\<lambda>(d, s). s \<le> 40) m);
          ops = (case map_of m ''market_gravity'' of
                 None \<Rightarrow> []
               | Some v \<Rightarrow> if v \<ge> 65 then [tagged_entry L ''Strong market potential'' v] else [])
            @ (case map_of m ''timing'' of
                 None \<Rightarrow> []
               | Some v \<Rightarrow> if v \<ge> 65 then [tagged_entry L ''Favorable timing'' v] else []);
          ths = (case map_of m ''regulatory_alignment'' of
                 None \<Rightarrow> []
               | Some v \<Rightarrow> if v \<le> 40 then [tagged_entry L ''Regulatory friction'' v] else [])
            @ (case map_of m ''white_space'' of
                 None \<Rightarrow> []
               | Some v \<Rightarrow> if v \<le> 40 then [tagged_entry L ''Crowded market'' v] else [])
      in if str = [] \<and> wks = [] \<and> ops = [] \<and> ths = [] then Inl PydanticError
         else Inr \<lparr>strengths = str, weaknesses = wks, opportunities = ops, threats = ths\<rparr>)"
  by (simp add: generate_swot_def strengths_loop_eq weaknesses_loop_eq get_default_def
      getitem_def new_SWOT_def Let_def split: option.split)

theorem generate_swot_rules_witness:
  "generate_swot sample_lib
     [(''tech_momentum'', 80), (''market_gravity'', 30), (''white_space'', 20),
      (''strategic_leverage'', 50), (''timing'', 70), (''regulatory_alignment'', 35)]
   = Inr \<lparr>strengths = [''Tech Momentum: 80.0/100'', ''Timing: 70.0/100''],
          weaknesses = [''Market Gravity: 30.0/100'', ''White Space: 20.0/100'',
                        ''Regulatory Alignment: 35.0/100''],
          opportunities = [''Favorable timing (70.0/100)''],
          threats = [''Regulatory friction (35.0/100)'', ''Crowded market (20.0/100)'']\<rparr>"
  by (subst generate_swot_rules) code_simp

section \<open>The orchestrator\<close>

lemma validate_multiple_scores_ok:
  assumes "validate_multiple_scores L scores n = (ok, issues)"
  shows "ok \<longleftrightarrow> issues = []"
  using assms by (auto simp: validate_multiple_scores_eq Let_def)

lemma foldl_on_validation_error:
  "foldl (\<lambda>h issue. on_validation_error h a issue) h issues =
     h\<lparr>all_flags := all_flags h @ map (\<lambda>i. ''VALIDATION_ERROR in '' @ a @ '': '' @ i) issues\<rparr>"
  by (induction issues arbitrary: h) (simp_all add: on_validation_error_def)

lemma foldl_quality:
  "foldl (\<lambda>h issue. h\<lparr>all_flags := all_flags h @ [g issue]\<rparr>) h issues =
     h\<lparr>all_flags := all_flags h @ map g issues\<rparr>"
  by (induction issues arbitrary: h) simp_all

lemma on_quality_check_flags:
  assumes "on_quality_check L h a q = Inr h'"
  shows "\<exists>fl. h' = h\<lparr>all_flags := all_flags h @ fl\<rparr>"
  using assms
  by (auto simp: on_quality_check_def foldl_quality elim!: bind_res_InrE split: if_split_asm
      intro: exI [of _ "[]"])

lemma in_hooks_InrE:
  assumes "in_hooks hooks f = Inr hk"
  obtains "hooks = None" "hk = None"
  | h h' where "hooks = Some h" "f h = Inr h'" "hk = Some h'"
  using assms by (cases hooks) (auto simp: in_hooks_def elim!: bind_res_InrE)

lemma usage_of_flags [simp]: "usage_of L (Some (h\<lparr>all_flags := fl\<rparr>)) = usage_of L (Some h)"
  by (simp add: usage_of_def)

lemma new_PatentRelevanceOutput_eq:
  assumes "new_PatentRelevanceOutput iid raw nrm prs sw c ev f usage = Inr out"
  shows "\<exists>cs fs us. str_of c = Some cs \<and> str_list_of f = Some fs \<and> ints_of usage = Some us
     \<and> out = \<lparr>idea_id = iid, dimension_scores = raw, normalized_scores = nrm,
               patent_relevance_score = prs, swot = sw, confidence_level = cs,
               evidence_map = ev, flags = fs, usage_summary = us\<rparr>"
  using assms
  by (auto simp: new_PatentRelevanceOutput_def split: if_split_asm option.split_asm)

lemma evaluate_InrE:
  assumes "evaluate L S hooks invention = Inr (h', out)"
  obtains triaged tech market product regulatory strategic timing prs raw nrm ev c f sw hk
  where "triage L S invention = Inr triaged"
    and "compute_signal L S TechnologySignalAgent triaged = Inr tech"
    and "compute_signal L S MarketSignalAgent triaged = Inr market"
    and "compute_signal L S ProductLandscapeAgent triaged = Inr product"
    and "compute_signal L S RegulatorySignalAgent triaged = Inr regulatory"
    and "compute_signal L S StrategicLeverageAgent triaged = Inr strategic"
    and "compute_signal L S TimingAgent triaged = Inr timing"
    and "calculate_prs tech market product strategic timing regulatory = Inr (prs, raw, nrm, ev)"
    and "review L S raw ev = Inr (c, f)"
    and "generate_swot L nrm = Inr sw"
    and "new_PatentRelevanceOutput (in_idea_id invention) raw nrm prs sw c ev f
           (usage_of L (started hooks)) = Inr out"
proof -
  from assms obtain triaged hooks0 tech market product regulatory strategic timing
    where t: "triage L S invention = Inr triaged"
    and h0: "in_hooks hooks (\<lambda>h. Inr (foldl on_agent_start h signal_agents)) = Inr hooks0"
    and s: "compute_signal L S TechnologySignalAgent triaged = Inr tech"
      "compute_signal L S MarketSignalAgent triaged = Inr market"
      "compute_signal L S ProductLandscapeAgent triaged = Inr product"
      "compute_signal L S RegulatorySignalAgent triaged = Inr regulatory"
      "compute_signal L S StrategicLeverageAgent triaged = Inr strategic"
      "compute_signal L S TimingAgent triaged = Inr timing"
    and rest: "(case validate_multiple_scores L
            [tech, market, product, regulatory, strategic, timing] 6 of
       (is_valid, validation_issues) \<Rightarrow>
     bind_res (if \<not> is_valid
               then in_hooks hooks0 (\<lambda>h.
                      Inr (foldl (\<lambda>h issue. on_validation_error h ''signals_batch'' issue)
                             h validation_issues))
               else Inr hooks0) (\<lambda>hooks.
     bind_res (calculate_prs tech market product strategic timing regulatory)
       (\<lambda>(prs, raw_scores, normalized_scores', evidence_map').
     bind_res (review L S raw_scores evidence_map') (\<lambda>(confidence', flags').
     bind_res (case confidence' of JStr c \<Rightarrow> Inr () | _ \<Rightarrow> Inl AttributeError) (\<lambda>_.
     bind_res (if truthy flags'
               then bind_res (py_len flags') (\<lambda>_.
                      in_hooks hooks (\<lambda>h. on_quality_check L h ''reviewer'' flags'))
               else Inr hooks) (\<lambda>hooks.
     bind_res (generate_swot L normalized_scores') (\<lambda>swot'.
     bind_res (new_PatentRelevanceOutput (in_idea_id invention) raw_scores
                 normalized_scores' prs swot' confidence' evidence_map' flags'
                 (usage_of L hooks)) (\<lambda>output.
     Inr (hooks, output))))))))) = Inr (h', out)"
    unfolding evaluate_def by (elim bind_res_InrE) blast
  have hooks0: "hooks0 = started hooks"
    using h0 by (cases hooks) (simp_all add: in_hooks_def started_def)
  obtain is_valid issues where v: "validate_multiple_scores L
            [tech, market, product, regulatory, strategic, timing] 6 = (is_valid, issues)"
    by (cases "validate_multiple_scores L
            [tech, market, product, regulatory, strategic, timing] 6") auto
  from rest [unfolded v prod.case] obtain hooks1 prs raw nrm ev c f hooks2 sw
    where h1: "(if \<not> is_valid
               then in_hooks hooks0 (\<lambda>h.
                      Inr (foldl (\<lambda>h issue. on_validation_error h ''signals_batch'' issue)
                             h issues))
               else Inr hooks0) = Inr hooks1"
    and p: "calculate_prs tech market product strategic timing regulatory = Inr (prs, raw, nrm, ev)"
    and r: "review L S raw ev = Inr (c, f)"
    and h2: "(if truthy f
               then bind_res (py_len f) (\<lambda>_.
                      in_hooks hooks1 (\<lambda>h. on_quality_check L h ''reviewer'' f))
               else Inr hooks1) = Inr hooks2"
    and g: "generate_swot L nrm = Inr sw"
    and n: "new_PatentRelevanceOutput (in_idea_id invention) raw nrm prs sw c ev f
                 (usage_of L hooks2) = Inr out"
    by (auto elim!: bind_res_InrE split: prod.split_asm)
  have u1: "usage_of L hooks1 = usage_of L hooks0"
    using h1 by (auto simp: foldl_on_validation_error split: if_split_asm elim!: in_hooks_InrE)
  have u2: "usage_of L hooks2 = usage_of L hooks1"
    using h2
    by (auto split: if_split_asm elim!: in_hooks_InrE bind_res_InrE
        dest!: on_quality_check_flags)
  from n u1 u2 hooks0 have "new_PatentRelevanceOutput (in_idea_id invention) raw nrm prs sw
      c ev f (usage_of L (started hooks)) = Inr out" by simp
  with t s p r g show ?thesis by (rule that)
qed


lemma triage_reviewer [simp]:
  "triage L (S\<lparr>reviewer_response := r\<rparr>) invention = triage L S invention"
  by (simp add: triage_def)

lemma compute_signal_reviewer [simp]:
  "compute_signal L (S\<lparr>reviewer_response := r\<rparr>) name triaged = compute_signal L S name triaged"
  by (simp add: compute_signal_def)

text \<open>
  Claim C8. Whenever an evaluation succeeds, the fields \<open>dimension_scores\<close>,
  \<open>normalized_scores\<close> and \<open>patent_relevance_score\<close> of its result are the raw scores, the
  normalized scores and the composite that \<open>calculate_prs\<close> returned for the six signals.
  If the reviewer's completion is replaced by any other and the evaluation still
  succeeds, the new result differs from the old one in the fields \<open>confidence\<close> and
  \<open>flags\<close> at most.
\<close>

theorem reviewer_alters_no_score:
  assumes "evaluate L S hooks invention = Inr (h1, out1)"
    and "evaluate L (S\<lparr>reviewer_response := r\<rparr>) hooks invention = Inr (h2, out2)"
  shows "\<exists>triaged tech market product regulatory strategic timing prs raw nrm ev.
           triage L S invention = Inr triaged
         \<and> compute_signal L S TechnologySignalAgent triaged = Inr tech
         \<and> compute_signal L S MarketSignalAgent triaged = Inr market
         \<and> compute_signal L S ProductLandscapeAgent triaged = Inr product
         \<and> compute_signal L S RegulatorySignalAgent triaged = Inr regulatory
         \<and> compute_signal L S StrategicLeverageAgent triaged = Inr strategic
         \<and> compute_signal L S TimingAgent triaged = Inr timing
         \<and> calculate_prs tech market product strategic timing regulatory
             = Inr (prs, raw, nrm, ev)
         \<and> dimension_scores out1 = raw \<and> normalized_scores out1 = nrm
         \<and> patent_relevance_score out1 = prs
         \<and> out2 = out1\<lparr>confidence_level := confidence_level out2, flags := flags out2\<rparr>"
proof -
  from assms(1) obtain triaged tech market product regulatory strategic timing prs raw nrm ev
      c f sw
    where t: "triage L S invention = Inr triaged"
      and s: "compute_signal L S TechnologySignalAgent triaged = Inr tech"
        "compute_signal L S MarketSignalAgent triaged = Inr market"
        "compute_signal L S ProductLandscapeAgent triaged = Inr product"
        "compute_signal L S RegulatorySignalAgent triaged = Inr regulatory"
        "compute_signal L S StrategicLeverageAgent triaged = Inr strategic"
        "compute_signal L S TimingAgent triaged = Inr timing"
      and p: "calculate_prs tech market product strategic timing regulatory
                = Inr (prs, raw, nrm, ev)"
      and g: "generate_swot L nrm = Inr sw"
      and n: "new_PatentRelevanceOutput (in_idea_id invention) raw nrm prs sw c ev f
                (usage_of L (started hooks)) = Inr out1"
    by (rule evaluate_InrE)
  from assms(2) obtain triaged' tech' market' product' regulatory' strategic' timing'
      prs' raw' nrm' ev' c' f' sw'
    where t': "triage L S invention = Inr triaged'"
      and s': "compute_signal L S TechnologySignalAgent triaged' = Inr tech'"
        "compute_signal L S MarketSignalAgent triaged' = Inr market'"
        "compute_signal L S ProductLandscapeAgent triaged' = Inr product'"
        "compute_signal L S RegulatorySignalAgent triaged' = Inr regulatory'"
        "compute_signal L S StrategicLeverageAgent triaged' = Inr strategic'"
        "compute_signal L S TimingAgent triaged' = Inr timing'"
      and p': "calculate_prs tech' market' product' strategic' timing' regulatory'
                = Inr (prs', raw', nrm', ev')"
      and g': "generate_swot L nrm' = Inr sw'"
      and n': "new_PatentRelevanceOutput (in_idea_id invention) raw' nrm' prs' sw' c' ev' f'
                (usage_of L (started hooks)) = Inr out2"
    by (rule evaluate_InrE) (simp only: triage_reviewer compute_signal_reviewer)
  from t t' have "triaged' = triaged" by simp
  with s s' have "tech' = tech" "market' = market" "product' = product"
    "regulatory' = regulatory" "strategic' = strategic" "timing' = timing" by simp_all
  with p p' have e: "prs' = prs" "raw' = raw" "nrm' = nrm" "ev' = ev" by simp_all
  with g g' have "sw' = sw" by simp
  with e n n' have o: "dimension_scores out1 = raw" "normalized_scores out1 = nrm"
    "patent_relevance_score out1 = prs"
    "out2 = out1\<lparr>confidence_level := confidence_level out2, flags := flags out2\<rparr>"
    by (auto dest!: new_PatentRelevanceOutput_eq)
  from t s p o show ?thesis by blast
qed

theorem reviewer_alters_no_score_witness:
  "evaluate sample_lib (sample_service (\<lambda>n. good_reply)) None sample_invention
     = Inr (None, sample_output 4 [])
   \<and> evaluate sample_lib
        ((sample_service (\<lambda>n. good_reply))\<lparr>reviewer_response := (\<lambda>raw ev. Inr doubt_reply)\<rparr>)
        None sample_invention
     = Inr (None, doubt_output)
   \<and> (\<exists>tech market product regulatory strategic timing prs ev.
         calculate_prs tech market product strategic timing regulatory
           = Inr (prs, dimension_scores (sample_output 4 []),
                  normalized_scores (sample_output 4 []), ev)
       \<and> patent_relevance_score (sample_output 4 []) = prs)
   \<and> doubt_output = (sample_output 4 [])\<lparr>confidence_level := confidence_level doubt_output,
                                            flags := flags doubt_output\<rparr>"
proof -
  have h1: "evaluate sample_lib (sample_service (\<lambda>n. good_reply)) None sample_invention
     = Inr (None, sample_output 4 [])" by code_simp
  have h2: "evaluate sample_lib
        ((sample_service (\<lambda>n. good_reply))\<lparr>reviewer_response := (\<lambda>raw ev. Inr doubt_reply)\<rparr>)
        None sample_invention
     = Inr (None, doubt_output)" by code_simp
  from reviewer_alters_no_score [OF h1 h2]
  have h3: "(\<exists>tech market product regulatory strategic timing prs ev.
         calculate_prs tech market product strategic timing regulatory
           = Inr (prs, dimension_scores (sample_output 4 []),
                  normalized_scores (sample_output 4 []), ev)
       \<and> patent_relevance_score (sample_output 4 []) = prs)
   \<and> doubt_output = (sample_output 4 [])\<lparr>confidence_level := confidence_level doubt_output,
                                            flags := flags doubt_output\<rparr>"
    by blast
  from h1 h2 h3 show ?thesis by blast
qed

text \<open>
  Claim C3 says that the issues of the batch check appear in the \<open>flags\<close> of the result.
  They do not: \<open>evaluate\<close> hands them to the hooks and takes \<open>flags\<close> from the
  reviewer alone. With six agents that each report the raw score 5 without a confidence,
  the batch check reports six issues, the evaluation completes, and \<open>flags\<close> is empty.
\<close>

theorem batch_issues_absent_from_flags:
  "map (\<lambda>name. compute_signal sample_lib (sample_service (\<lambda>n. top_reply)) name sample_triaged)
       signal_agents
     = map (\<lambda>name. Inr (top_score name)) signal_agents
   \<and> validate_multiple_scores sample_lib (map top_score signal_agents) 6 = (False, top_issues)
   \<and> top_issues \<noteq> []
   \<and> evaluate sample_lib (sample_service (\<lambda>n. top_reply)) (Some new_hooks) sample_invention
       = Inr (Some ((foldl on_agent_start new_hooks signal_agents)
                      \<lparr>all_flags := map (\<lambda>i. ''VALIDATION_ERROR in signals_batch: '' @ i)
                                       top_issues\<rparr>),
              sample_output 5 hooks_usage)
   \<and> flags (sample_output 5 hooks_usage) = []"
proof -
  have a: "map (\<lambda>name. compute_signal sample_lib (sample_service (\<lambda>n. top_reply)) name
                 sample_triaged) signal_agents
     = map (\<lambda>name. Inr (top_score name)) signal_agents" by code_simp
  have b: "validate_multiple_scores sample_lib (map top_score signal_agents) 6
     = (False, top_issues)" by code_simp
  have c: "top_issues \<noteq> []" by (simp add: top_issues_def signal_agents_def)
  have d: "evaluate sample_lib (sample_service (\<lambda>n. top_reply)) (Some new_hooks)
      sample_invention
       = Inr (Some ((foldl on_agent_start new_hooks signal_agents)
                      \<lparr>all_flags := map (\<lambda>i. ''VALIDATION_ERROR in signals_batch: '' @ i)
                                       top_issues\<rparr>),
              sample_output 5 hooks_usage)" by code_simp
  have e: "flags (sample_output 5 hooks_usage) = []" by (simp add: sample_output_def)
  from a b c d e show ?thesis by blast
qed

lemma str_list_of_JArr:
  assumes "str_list_of f = Some fs"
  shows "f = JArr (map JStr fs)"
proof -
  have "strs_of js = Some ss \<Longrightarrow> js = map JStr ss" for js ss
  proof (induction js arbitrary: ss)
    case Nil
    then show ?case by simp
  next
    case (Cons j js)
    then show ?case
      by (cases j) (auto split: option.split_asm)
  qed
  with assms show ?thesis by (cases f) auto
qed

lemma on_quality_check_strs:
  "on_quality_check L h a (JArr (map JStr fs)) =
     Inr (h\<lparr>all_flags := all_flags h @ map (\<lambda>f. ''QUALITY_ISSUE in '' @ a @ '': '' @ f) fs\<rparr>)"
  by (simp add: on_quality_check_def foldl_quality fstr_def comp_def)

text \<open>
  Claim C3, amended. The issues of the batch check never stop an evaluation and never
  enter the \<open>flags\<close> of its result: whenever triage, the six agents, the aggregator, the
  reviewer, the synthesizer and the constructor of the output succeed, \<open>evaluate\<close>
  returns that output, whatever the batch check reported, and the \<open>flags\<close> of the output
  are the reviewer's flags. With hooks enabled each issue is appended to the hooks'
  \<open>all_flags\<close> as \<open>VALIDATION_ERROR in signals_batch: issue\<close>, before the reviewer's flags.
\<close>

theorem batch_issues_reach_hooks_only:
  assumes "triage L S invention = Inr triaged"
    and "compute_signal L S TechnologySignalAgent triaged = Inr tech"
    and "compute_signal L S MarketSignalAgent triaged = Inr market"
    and "compute_signal L S ProductLandscapeAgent triaged = Inr product"
    and "compute_signal L S RegulatorySignalAgent triaged = Inr regulatory"
    and "compute_signal L S StrategicLeverageAgent triaged = Inr strategic"
    and "compute_signal L S TimingAgent triaged = Inr timing"
    and "validate_multiple_scores L [tech, market, product, regulatory, strategic, timing] 6
           = (ok, issues)"
    and "calculate_prs tech market product strategic timing regulatory
           = Inr (prs, raw, nrm, ev)"
    and "review L S raw ev = Inr (c, f)"
    and "generate_swot L nrm = Inr sw"
    and "new_PatentRelevanceOutput (in_idea_id invention) raw nrm prs sw c ev f
           (usage_of L (started hooks)) = Inr out"
  shows "evaluate L S hooks invention =
           Inr (map_option
                  (\<lambda>h. h\<lparr>all_flags := all_flags h
                         @ map (\<lambda>i. ''VALIDATION_ERROR in signals_batch: '' @ i) issues
                         @ map (\<lambda>f. ''QUALITY_ISSUE in reviewer: '' @ f) (flags out)\<rparr>)
                  (started hooks), out)
         \<and> f = JArr (map JStr (flags out))"
proof -
  from assms(12) obtain cs where c: "str_of c = Some cs"
    and f: "str_list_of f = Some (flags out)"
    by (auto dest!: new_PatentRelevanceOutput_eq)
  from f have f': "f = JArr (map JStr (flags out))" by (rule str_list_of_JArr)
  from c obtain s where c': "c = JStr s" by (cases c) auto
  from assms(8) have ok: "ok \<longleftrightarrow> issues = []" by (rule validate_multiple_scores_ok)
  note stages = assms(1-9) assms(10) [unfolded f' c'] assms(11) assms(12) [unfolded f' c']
  have "evaluate L S hooks invention =
           Inr (map_option
                  (\<lambda>h. h\<lparr>all_flags := all_flags h
                         @ map (\<lambda>i. ''VALIDATION_ERROR in signals_batch: '' @ i) issues
                         @ map (\<lambda>f. ''QUALITY_ISSUE in reviewer: '' @ f) (flags out)\<rparr>)
                  (started hooks), out)"
  proof (cases "flags out = []")
    case True
    with stages ok show ?thesis
      by (cases hooks)
        (simp_all add: evaluate_def in_hooks_def started_def foldl_on_validation_error)
  next
    case False
    with stages ok show ?thesis
      by (cases hooks)
        (simp_all add: evaluate_def in_hooks_def started_def foldl_on_validation_error
          on_quality_check_strs)
  qed
  with f' show ?thesis by simp
qed

theorem batch_issues_reach_hooks_only_witness:
  "validate_multiple_scores sample_lib
     [top_score TechnologySignalAgent, top_score MarketSignalAgent,
      top_score ProductLandscapeAgent, top_score RegulatorySignalAgent,
      top_score StrategicLeverageAgent, top_score TimingAgent] 6 = (False, top_issues)
   \<and> top_issues \<noteq> []
   \<and> evaluate sample_lib (sample_service (\<lambda>n. top_reply)) (Some new_hooks) sample_invention =
       Inr (map_option
              (\<lambda>h. h\<lparr>all_flags := all_flags h
                     @ map (\<lambda>i. ''VALIDATION_ERROR in signals_batch: '' @ i) top_issues
                     @ map (\<lambda>f. ''QUALITY_ISSUE in reviewer: '' @ f)
                         (flags (sample_output 5 hooks_usage))\<rparr>)
              (started (Some new_hooks)), sample_output 5 hooks_usage)
   \<and> JArr [] = JArr (map JStr (flags (sample_output 5 hooks_usage)))"
proof -
  let ?S = "sample_service (\<lambda>n. top_reply)"
  let ?out = "sample_output 5 hooks_usage"
  have h1: "triage sample_lib ?S sample_invention = Inr sample_triaged" by code_simp
  have h2: "compute_signal sample_lib ?S TechnologySignalAgent sample_triaged
              = Inr (top_score TechnologySignalAgent)" by code_simp
  have h3: "compute_signal sample_lib ?S MarketSignalAgent sample_triaged
              = Inr (top_score MarketSignalAgent)" by code_simp
  have h4: "compute_signal sample_lib ?S ProductLandscapeAgent sample_triaged
              = Inr (top_score ProductLandscapeAgent)" by code_simp
  have h5: "compute_signal sample_lib ?S RegulatorySignalAgent sample_triaged
              = Inr (top_score RegulatorySignalAgent)" by code_simp
  have h6: "compute_signal sample_lib ?S StrategicLeverageAgent sample_triaged
              = Inr (top_score StrategicLeverageAgent)" by code_simp
  have h7: "compute_signal sample_lib ?S TimingAgent sample_triaged
              = Inr (top_score TimingAgent)" by code_simp
  have h8: "validate_multiple_scores sample_lib
     [top_score TechnologySignalAgent, top_score MarketSignalAgent,
      top_score ProductLandscapeAgent, top_score RegulatorySignalAgent,
      top_score StrategicLeverageAgent, top_score TimingAgent] 6 = (False, top_issues)"
    by code_simp
  have h9: "calculate_prs (top_score TechnologySignalAgent) (top_score MarketSignalAgent)
      (top_score ProductLandscapeAgent) (top_score StrategicLeverageAgent)
      (top_score TimingAgent) (top_score RegulatorySignalAgent)
    = Inr (patent_relevance_score ?out, dimension_scores ?out, normalized_scores ?out,
           evidence_map ?out)" by code_simp
  have h10: "review sample_lib ?S (dimension_scores ?out) (evidence_map ?out)
    = Inr (JStr ''high'', JArr [])" by code_simp
  have h11: "generate_swot sample_lib (normalized_scores ?out) = Inr (swot ?out)"
    by code_simp
  have h12: "new_PatentRelevanceOutput (in_idea_id sample_invention) (dimension_scores ?out)
      (normalized_scores ?out) (patent_relevance_score ?out) (swot ?out) (JStr ''high'')
      (evidence_map ?out) (JArr []) (usage_of sample_lib (started (Some new_hooks)))
    = Inr ?out" by code_simp
  have ne: "top_issues \<noteq> []" by (simp add: top_issues_def signal_agents_def)
  from batch_issues_reach_hooks_only [OF h1 h2 h3 h4 h5 h6 h7 h8 h9 h10 h11 h12] h8 ne
  show ?thesis by blast
qed

section \<open>The guardrail validator\<close>









lemma strs_of_map_JStr [simp]: "strs_of (map JStr ss) = Some ss"
  by (induction ss) simp_all








section \<open>Unwrapping a fenced completion\<close>

lemma fence_backticks: "fence = [backtick, backtick, backtick]"
  by (simp add: fence_def backtick_def)

lemma not_space_backtick: "\<not> isspace backtick"
  by (simp add: isspace_def backtick_def)

lemma lstrip_spaces:
  assumes "\<forall>c \<in> set ws. isspace c"
  shows "lstrip (ws @ s) = lstrip s"
  using assms by (simp add: lstrip_def dropWhile_append)

lemma rstrip_spaces:
  assumes "\<forall>c \<in> set ws. isspace c"
  shows "rstrip (s @ ws) = rstrip s"
  using assms by (simp add: rstrip_def dropWhile_append)

lemma lstrip_append_spaces:
  assumes "\<forall>c \<in> set ws. isspace c"
  shows "rstrip (lstrip (s @ ws)) = rstrip (lstrip s)"
proof (cases "\<forall>c \<in> set s. isspace c")
  case True
  with assms have "dropWhile isspace ws = []" "dropWhile isspace s = []" by simp_all
  with True show ?thesis
    by (simp add: lstrip_def rstrip_def dropWhile_append del: dropWhile_eq_Nil_conv)
next
  case False
  then have "lstrip (s @ ws) = lstrip s @ ws"
    by (auto simp: lstrip_def dropWhile_append)
  with assms show ?thesis by (simp add: rstrip_spaces)
qed

lemma strip_surrounded:
  assumes "\<forall>c \<in> set ws1. isspace c" "\<forall>c \<in> set ws2. isspace c"
  shows "strip (ws1 @ s @ ws2) = strip s"
  using assms by (simp add: strip_def lstrip_spaces lstrip_append_spaces)

lemma strip_fixed:
  assumes "\<not> isspace x" "\<not> isspace y"
  shows "strip (x # s @ [y]) = x # s @ [y]"
proof -
  have "rstrip (x # s @ [y]) = x # s @ [y]"
    using assms by (simp add: rstrip_def)
  moreover have "lstrip (x # s @ [y]) = x # s @ [y]"
    using assms by (simp add: lstrip_def)
  ultimately show ?thesis by (simp add: strip_def)
qed

lemma sublist_fence_Cons:
  assumes "x \<noteq> backtick"
  shows "sublist fence (x # s) \<longleftrightarrow> sublist fence s"
  using assms by (simp add: sublist_Cons_right fence_backticks)

lemma sublist_fence_snoc:
  assumes "x \<noteq> backtick"
  shows "sublist fence (s @ [x]) \<longleftrightarrow> sublist fence s"
proof -
  have "sublist fence (s @ [x]) \<longleftrightarrow> sublist (rev fence) (rev (s @ [x]))"
    by (simp only: sublist_rev)
  also have "\<dots> \<longleftrightarrow> sublist fence (x # rev s)"
    by (simp add: fence_backticks)
  also have "\<dots> \<longleftrightarrow> sublist fence (rev s)"
    using assms by (rule sublist_fence_Cons)
  also have "\<dots> \<longleftrightarrow> sublist (rev fence) (rev s)"
    by (simp add: fence_backticks)
  also have "\<dots> \<longleftrightarrow> sublist fence s"
    by (simp only: sublist_rev)
  finally show ?thesis .
qed

lemma split_acc_body:
  assumes "\<not> sublist fence (s @ [c])" "c \<noteq> backtick"
  shows "split_acc fence cur (s @ [c] @ fence) = [cur @ s @ [c], []]"
  using assms
proof (induction s arbitrary: cur)
  case Nil
  then show ?case by (simp add: fence_backticks)
next
  case (Cons a s)
  from Cons.prems have ns: "\<not> sublist fence (s @ [c])" and np: "\<not> prefix fence (a # s @ [c])"
    by (simp_all add: sublist_Cons_right)
  have "\<not> prefix fence (a # s @ [c] @ fence)"
  proof
    assume p: "prefix fence (a # s @ [c] @ fence)"
    show False
    proof (cases s)
      case Nil
      with p Cons.prems(2) show False by (simp add: fence_backticks)
    next
      case (Cons b t)
      note s = this
      show False
      proof (cases t)
        case Nil
        with p s Cons.prems(2) show False by (simp add: fence_backticks)
      next
        case (Cons d u)
        with p s np show False by (simp add: fence_backticks)
      qed
    qed
  qed
  with Cons.IH [OF ns Cons.prems(2), of "cur @ [a]"] show ?case by simp
qed


lemma sublist_strip: "sublist (strip p) p"
proof -
  have "sublist (rstrip q) q" for q
  proof -
    have "sublist (rev (dropWhile isspace (rev q))) (rev (rev q))"
      by (simp only: sublist_rev) simp
    then show ?thesis by (simp add: rstrip_def)
  qed
  then have "sublist (strip p) (lstrip p)" by (simp add: strip_def)
  moreover have "sublist (lstrip p) p" by (simp add: lstrip_def)
  ultimately show ?thesis by (rule sublist_order.order.trans)
qed

lemma no_fence_strip:
  assumes "\<not> sublist fence p"
  shows "\<not> prefix fence (strip p)" "\<not> suffix fence (strip p)"
proof -
  from assms have "\<not> sublist fence (strip p)"
    using sublist_strip [of p] sublist_order.order.trans by blast
  then show "\<not> prefix fence (strip p)" "\<not> suffix fence (strip p)"
    by auto
qed

lemma sanitize_plain:
  assumes "\<not> sublist fence p" "\<forall>c \<in> set ws. isspace c"
  shows "sanitize_llm_output (p @ ws) = Inr (strip p)"
proof -
  from assms(2) have "strip (p @ ws) = strip p"
    using strip_surrounded [of "[]" ws p] by simp
  with no_fence_strip [OF assms(1)] show ?thesis
    by (simp add: sanitize_llm_output_def Let_def strip_idem)
qed


lemma split_fenced:
  assumes "\<not> sublist fence (s @ [c])" "c \<noteq> backtick"
  shows "split fence (fence @ s @ [c] @ fence) = [[], s @ [c], []]"
  using split_acc_body [OF assms, of "[]"]
  by (simp add: split_def fence_backticks)

lemma strip_fenced:
  assumes "\<forall>c \<in> set ws. isspace c"
  shows "strip (fence @ body @ fence @ ws) = fence @ body @ fence"
proof -
  have "fence @ body @ fence = backtick # (backtick # backtick # body @ [backtick, backtick])
          @ [backtick]"
    by (simp add: fence_backticks)
  then have "strip (fence @ body @ fence) = fence @ body @ fence"
    using strip_fixed [OF not_space_backtick not_space_backtick,
        of "backtick # backtick # body @ [backtick, backtick]"]
    by simp
  moreover have "strip (fence @ body @ fence @ ws) = strip (fence @ body @ fence)"
    using strip_surrounded [OF _ assms, of "[]" "fence @ body @ fence"] by simp
  ultimately show ?thesis by simp
qed

lemma newline_facts: "isspace newline" "newline \<noteq> backtick"
  by (simp_all add: newline_def isspace_def backtick_def)

lemma sanitize_fenced:
  assumes "\<not> sublist fence p" "\<forall>c \<in> set ws. isspace c"
    and tag: "tag = ''json'' \<or> tag = []"
  shows "sanitize_llm_output (fence @ tag @ [newline] @ p @ [newline] @ fence @ ws)
           = Inr (strip p)"
proof -
  define body where "body = tag @ [newline] @ p @ [newline]"
  define inner where "inner = [newline] @ p @ [newline]"
  have nb: "\<not> sublist fence body"
  proof -
    from assms(1) have "\<not> sublist fence (newline # p)"
      by (simp add: sublist_fence_Cons newline_facts)
    then have "\<not> sublist fence (tag @ newline # p)"
      using tag by (auto simp: sublist_fence_Cons backtick_def)
    moreover have "sublist fence ((tag @ newline # p) @ [newline])
        \<longleftrightarrow> sublist fence (tag @ newline # p)"
      by (rule sublist_fence_snoc) (rule newline_facts)
    ultimately show ?thesis by (simp add: body_def)
  qed
  have stripped: "strip (fence @ tag @ [newline] @ p @ [newline] @ fence @ ws)
      = fence @ body @ fence"
    using strip_fenced [OF assms(2), of body] by (simp add: body_def)
  have sp: "split fence (fence @ body @ fence) = [[], body, []]"
    using split_fenced [of "tag @ [newline] @ p" newline] nb newline_facts
    by (simp add: body_def)
  have untag: "(if prefix ''json'' body then drop 4 body else body) = inner"
    using tag by (auto simp: newline_def body_def inner_def)
  have ns: "\<not> suffix fence inner"
    by (simp add: suffix_def fence_backticks newline_facts inner_def)
  have st: "strip inner = strip p"
    unfolding inner_def by (rule strip_surrounded) (simp_all add: newline_facts)
  have pf: "prefix fence (fence @ body @ fence)" by simp
  show ?thesis
    unfolding sanitize_llm_output_def Let_def stripped
    using pf sp untag ns st by (simp add: item_def)
qed

text \<open>
  Claim C9. For a payload \<open>p\<close> that contains no run of three backticks and a string
  \<open>ws\<close> of whitespace, possibly empty, \<open>sanitize_llm_output\<close> returns \<open>p\<close> stripped of
  leading and trailing whitespace on each of: \<open>p\<close> followed by \<open>ws\<close>; \<open>p\<close> between a
  fence with the tag \<open>json\<close> and a closing fence, followed by \<open>ws\<close>; \<open>p\<close> between a fence
  without tag and a closing fence, followed by \<open>ws\<close>.
\<close>

theorem sanitize_llm_output_payload:
  assumes "\<not> sublist fence p" and "\<forall>c \<in> set ws. isspace c"
  shows "sanitize_llm_output (p @ ws) = Inr (strip p)
       \<and> sanitize_llm_output (''```json\<newline>'' @ p @ ''\<newline>```'' @ ws) = Inr (strip p)
       \<and> sanitize_llm_output (''```\<newline>'' @ p @ ''\<newline>```'' @ ws) = Inr (strip p)"
proof -
  have a: "''```json\<newline>'' @ p @ ''\<newline>```'' @ ws
             = fence @ ''json'' @ [newline] @ p @ [newline] @ fence @ ws"
    by (simp add: fence_def newline_def)
  have b: "''```\<newline>'' @ p @ ''\<newline>```'' @ ws
             = fence @ [] @ [newline] @ p @ [newline] @ fence @ ws"
    by (simp add: fence_def newline_def)
  show ?thesis
    unfolding a b
    using sanitize_plain [OF assms] sanitize_fenced [OF assms, of "''json''"]
      sanitize_fenced [OF assms, of "[]"]
    by simp
qed

theorem sanitize_llm_output_payload_witness:
  "\<not> sublist fence good_reply
   \<and> list_all isspace '' \<newline>''
   \<and> sanitize_llm_output (good_reply @ '' \<newline>'') = Inr good_reply
   \<and> sanitize_llm_output (''```json\<newline>'' @ good_reply @ ''\<newline>```'' @ '' \<newline>'')
       = Inr good_reply
   \<and> sanitize_llm_output (''```\<newline>'' @ good_reply @ ''\<newline>```'' @ '' \<newline>'')
       = Inr good_reply"
proof -
  have h1: "\<not> sublist fence good_reply" by code_simp
  have h2: "\<forall>c \<in> set '' \<newline>''. isspace c" by (simp add: isspace_def)
  have h3: "strip good_reply = good_reply" by code_simp
  have h4: "list_all isspace '' \<newline>''" by (simp add: isspace_def)
  from sanitize_llm_output_payload [OF h1 h2] h1 h3 h4 show ?thesis by simp
qed

end
